theory Spec2Isabelle
  imports Complex_Main "HOL-Library.AList" "HOL-Library.Multiset"
begin

section \<open>Data model of GameServer.js\<close>

text \<open>
  Connection identifiers are the numbers handed out by the counter of ws-server.js; a
  socket is the opaque transport object \<open>ws\<close> that carries the \<open>send\<close> capability.
  A JavaScript string is the list of its code units, and the model has the code units
  U+0000 to U+00FF: a \<open>char\<close> is the code unit with that number. A JavaScript \<open>Map\<close> that is
  iterated (\<open>game.players\<close>, \<open>roles\<close>, \<open>readyStates\<close>) is an association list in
  insertion order, \<open>Map.set\<close> being \<open>AList.update\<close> (replace in place, else append) and
  \<open>Map.delete\<close> being \<open>AList.delete\<close>; a \<open>Map\<close> that is only looked up (\<open>games\<close>,
  \<open>playerConnections\<close>, \<open>playerTokens\<close>) is a partial function. The map
  \<open>clientConnectionMap\<close> is never read or written and is left out. The optional fields
  of a room (\<open>roles\<close>, \<open>round\<close>, \<open>caseNotes\<close>, \<open>readyStates\<close>) are \<open>None\<close> until
  \<open>startGame\<close> sets them.
\<close>

type_synonym connId = nat
type_synonym socket = nat

datatype role = Syndicate | Detective | EyeWitness | BodyGuard | InnocentBystander | Unknown

datatype status = Lobby | Playing

record settings =
  eyeWitness :: bool
  bodyGuard :: bool

record player =
  name :: string
  isHost :: bool
  connection :: socket
  token :: string
  connected_flag :: bool

record game =
  code :: string
  host :: connId
  hostToken :: string
  players :: "(connId \<times> player) list"
  settings :: settings
  status :: status
  roles :: "(connId \<times> role) list option"
  round_no :: "nat option"
  caseNotes :: "string list option"
  readyStates :: "(connId \<times> bool) list option"

record server =
  games :: "string \<rightharpoonup> game"
  playerConnections :: "connId \<rightharpoonup> string"
  playerTokens :: "string \<rightharpoonup> (string \<times> connId)"

text \<open>The fields of an inbound envelope that the handlers read; an absent field is \<open>None\<close>.\<close>

record data =
  data_playerName :: "string option"
  data_gameCode :: "string option"
  data_eyeWitness :: "bool option"
  data_bodyGuard :: "bool option"
  data_targetId :: "connId option"

datatype playerInfo =
  PlayerInfo (info_id: connId) (info_name: string) (info_connected: bool)
    (info_alive: bool) (info_isHost: bool)

text \<open>
  Outbound messages, one constructor per \<open>action\<close> tag. In \<open>RoleAssigned\<close> the fields are
  role, teammates, playerCount, readyCount and totalPlayers; the \<open>description\<close> field of the
  source is the entry of the static table \<open>getRoleDescriptions\<close> for that role and is not
  repeated in the model.
\<close>

datatype message =
    ErrorMsg string
  | GameCreated string "playerInfo list" bool string
  | GameJoined string "playerInfo list" bool string
  | PlayerListUpdate "playerInfo list"
  | RoleAssigned role "string list" nat nat nat
  | ReadyUpdate nat nat
  | PlayerDisconnected connId string
  | RemovedFromGame string

text \<open>
  What a handler does to the outside world, in order: \<open>Stringify m\<close> is one call of
  \<open>JSON.stringify\<close>, \<open>Send w m\<close> is one call of \<open>send\<close> on socket \<open>w\<close> with the text of
  \<open>m\<close> (the text is identified with the message it encodes), \<open>ConsoleError\<close> is the
  \<open>console.error\<close> of the catch block in \<open>broadcastToGame\<close>, and \<open>Thrown\<close> marks an
  exception that no \<open>try\<close> catches, which ends the handler; the mutations made before it
  stay. The \<open>console.log\<close> lines are not modelled.
\<close>

datatype effect = Stringify message | Send socket message | ConsoleError | Thrown

section \<open>String helpers\<close>

text \<open>
  \<open>String.prototype.trim\<close> removes white space and line terminators from both ends; among
  the code units of the model these are U+0009 to U+000D, U+0020 and U+00A0.
\<close>

definition isWhiteSpace :: "char \<Rightarrow> bool" where
  "isWhiteSpace c \<longleftrightarrow>
     (let n = of_char c :: nat in (9 \<le> n \<and> n \<le> 13) \<or> n = 32 \<or> n = 160)"

definition trim :: "string \<Rightarrow> string" where
  "trim s = rev (dropWhile isWhiteSpace (rev (dropWhile isWhiteSpace s)))"

text \<open>
  \<open>String.prototype.toLowerCase\<close> on the code units of the model: the capitals
  \<open>A\<close> to \<open>Z\<close> and U+00C0 to U+00DE, the multiplication sign U+00D7 apart, go to
  the code unit 32 above; every other code unit stays.
\<close>

definition lowerChar :: "char \<Rightarrow> char" where
  "lowerChar c =
     (let n = of_char c :: nat
      in if (65 \<le> n \<and> n \<le> 90) \<or> (192 \<le> n \<and> n \<le> 222 \<and> n \<noteq> 215)
         then char_of (n + 32) else c)"

definition toLowerCase :: "string \<Rightarrow> string" where
  "toLowerCase s = map lowerChar s"

text \<open>
  \<open>String.prototype.toUpperCase\<close> on the code units of the model: the small letters
  \<open>a\<close> to \<open>z\<close> and U+00E0 to U+00FE, the division sign U+00F7 apart, go to the
  code unit 32 below; the sharp s U+00DF becomes \<open>SS\<close>; the capitals of the micro sign
  U+00B5 and of U+00FF are U+039C and U+0178, which are not code units of the model, and
  the result is then \<open>None\<close>; every other code unit stays.
\<close>

definition upperUnits :: "char \<Rightarrow> string option" where
  "upperUnits c =
     (let n = of_char c :: nat
      in if (97 \<le> n \<and> n \<le> 122) \<or> (224 \<le> n \<and> n \<le> 254 \<and> n \<noteq> 247)
           then Some [char_of (n - 32)]
         else if n = 223 then Some ''SS''
         else if n = 181 \<or> n = 255 then None
         else Some [c])"

fun toUpperCase :: "string \<Rightarrow> string option" where
  "toUpperCase [] = Some []"
| "toUpperCase (c # cs) =
     (case upperUnits c of
        None \<Rightarrow> None
      | Some u \<Rightarrow> map_option (\<lambda>rest. u @ rest) (toUpperCase cs))"

text \<open>\<open>String.prototype.charAt\<close>: the one-character string at the index, or the empty string.\<close>

definition charAt :: "string \<Rightarrow> int \<Rightarrow> string" where
  "charAt s i = (if 0 \<le> i \<and> i < int (length s) then [s ! nat i] else [])"

section \<open>Utilities\<close>

text \<open>
  The code draws random indices with \<open>Math.floor(Math.random() * m)\<close>, computed in double
  precision, which the model does not do. The random source is a parameter: \<open>rnd k m\<close>
  is the value of that expression at the \<open>k\<close>-th draw still to come when the multiplier
  is \<open>m\<close>; a caller that has consumed \<open>k\<close> draws goes on with the source shifted by
  \<open>k\<close>. The draw is a double below 1 and \<open>m\<close> a positive integer far below
  \<open>2^53\<close>, so the value is a natural number below \<open>m\<close>.
\<close>

definition validRandom :: "(nat \<Rightarrow> nat \<Rightarrow> nat) \<Rightarrow> bool" where
  "validRandom rnd \<longleftrightarrow> (\<forall>k m. 0 < m \<longrightarrow> rnd k m < m)"

definition characters :: string where
  "characters = ''ABCDEFGHJKLMNPQRSTUVWXYZ23456789''"

text \<open>The inner \<open>for\<close> loop of \<open>generateGameCode\<close>: four characters, one draw each.\<close>

definition randomCode :: "(nat \<Rightarrow> nat \<Rightarrow> nat) \<Rightarrow> string" where
  "randomCode rnd =
     concat (map (\<lambda>i. charAt characters (int (rnd i (length characters)))) [0..<4])"

text \<open>The \<open>do ... while (this.games.has(code))\<close> loop; it need not terminate.\<close>

partial_function (option) generateGameCode ::
  "(nat \<Rightarrow> nat \<Rightarrow> nat) \<Rightarrow> (string \<rightharpoonup> game) \<Rightarrow> string option" where
  "generateGameCode rnd gs =
     (let gameCode = randomCode rnd
      in if gs gameCode \<noteq> None then generateGameCode (\<lambda>i. rnd (i + 4)) gs else Some gameCode)"

text \<open>
  No player record is ever given an \<open>alive\<close> field, so \<open>player.alive ?? true\<close> is
  \<open>true\<close>; \<open>connected\<close> and \<open>isHost\<close> are set in every record.
\<close>

definition getPlayerList :: "(string \<rightharpoonup> game) \<Rightarrow> string \<Rightarrow> playerInfo list" where
  "getPlayerList gs gameCode =
     (case gs gameCode of
        None \<Rightarrow> []
      | Some game \<Rightarrow>
          map (\<lambda>(resourceId, player).
                 PlayerInfo resourceId (name player) (connected_flag player) True (isHost player))
              (players game))"

text \<open>
  The loop of \<open>broadcastToGame\<close>. Every player record is built with its socket, so the test
  \<open>player.connection\<close> always passes; \<open>throws w\<close> says whether \<open>send\<close> on \<open>w\<close> throws.
\<close>

fun deliver :: "(socket \<Rightarrow> bool) \<Rightarrow> message \<Rightarrow> (connId \<times> player) list \<Rightarrow> effect list" where
  "deliver throws messageStr [] = []"
| "deliver throws messageStr ((resourceId, player) # rest) =
     (if connected_flag player
      then Send (connection player) messageStr
           # (if throws (connection player) then [ConsoleError] else [])
           @ deliver throws messageStr rest
      else deliver throws messageStr rest)"

definition broadcastToGame ::
  "(socket \<Rightarrow> bool) \<Rightarrow> (string \<rightharpoonup> game) \<Rightarrow> string \<Rightarrow> message \<Rightarrow> effect list" where
  "broadcastToGame throws gs gameCode message =
     (case gs gameCode of
        None \<Rightarrow> []
      | Some game \<Rightarrow> Stringify message # deliver throws message (players game))"

text \<open>\<open>ws.send(JSON.stringify(m))\<close> outside any \<open>try\<close>.\<close>

definition wsSend :: "(socket \<Rightarrow> bool) \<Rightarrow> socket \<Rightarrow> message \<Rightarrow> effect list" where
  "wsSend throws ws m = [Stringify m, Send ws m] @ (if throws ws then [Thrown] else [])"

section \<open>Role assignment\<close>

text \<open>The Fisher-Yates loop, \<open>i\<close> running from \<open>length - 1\<close> down to \<open>1\<close>.\<close>

fun shuffle :: "(nat \<Rightarrow> nat \<Rightarrow> nat) \<Rightarrow> nat \<Rightarrow> 'a list \<Rightarrow> 'a list" where
  "shuffle rnd 0 playerIds = playerIds"
| "shuffle rnd (Suc i') playerIds =
     (let i = Suc i';
          j = rnd 0 (i + 1)
      in shuffle (\<lambda>k. rnd (k + 1)) i' (playerIds[i := playerIds ! j, j := playerIds ! i]))"

text \<open>
  One pass of the loop over the non-Syndicate identifiers; the state is the role map and the
  three flags \<open>assignedDetective\<close>, \<open>assignedEyewitness\<close>, \<open>assignedBodyGuard\<close>.
\<close>

definition innocentStep ::
  "settings \<Rightarrow> connId list \<Rightarrow> nat \<Rightarrow> (connId \<times> role) list \<times> bool \<times> bool \<times> bool
     \<Rightarrow> (connId \<times> role) list \<times> bool \<times> bool \<times> bool" where
  "innocentStep st playerIds i acc =
     (case acc of (rs, assignedDetective, assignedEyewitness, assignedBodyGuard) \<Rightarrow>
        if \<not> assignedDetective
          then (AList.update (playerIds ! i) Detective rs, True, assignedEyewitness, assignedBodyGuard)
        else if eyeWitness st \<and> \<not> assignedEyewitness
          then (AList.update (playerIds ! i) EyeWitness rs, assignedDetective, True, assignedBodyGuard)
        else if bodyGuard st \<and> \<not> assignedBodyGuard
          then (AList.update (playerIds ! i) BodyGuard rs, assignedDetective, assignedEyewitness, True)
        else (AList.update (playerIds ! i) InnocentBystander rs,
              assignedDetective, assignedEyewitness, assignedBodyGuard))"

definition assignRoles :: "(nat \<Rightarrow> nat \<Rightarrow> nat) \<Rightarrow> game \<Rightarrow> (connId \<times> role) list" where
  "assignRoles rnd game =
     (let playerIds0 = map fst (players game);
          playerCount = length playerIds0;
          playerIds = shuffle rnd (length playerIds0 - 1) playerIds0;
          syndicateCount = nat \<lceil>real playerCount / 3\<rceil>;
          rs = fold (\<lambda>i rs. AList.update (playerIds ! i) Syndicate rs) [0..<syndicateCount] [];
          (rs', assignedDetective, assignedEyewitness, assignedBodyGuard) =
            fold (innocentStep (settings game) playerIds) [syndicateCount..<playerCount]
                 (rs, False, False, False)
      in rs')"

definition countRole :: "role \<Rightarrow> (connId \<times> role) list \<Rightarrow> nat" where
  "countRole r rs = length (filter (\<lambda>p. snd p = r) rs)"

section \<open>Game creation and joining\<close>

text \<open>
  \<open>newToken\<close> is the value that \<open>generatePlayerToken\<close> returns in this call. A handler
  returns the new store and its effects; \<open>createGame\<close> returns \<open>None\<close> when the code
  generator does not return.
\<close>

definition createGame ::
  "(socket \<Rightarrow> bool) \<Rightarrow> (nat \<Rightarrow> nat \<Rightarrow> nat) \<Rightarrow> string \<Rightarrow> socket \<Rightarrow> data \<Rightarrow> connId \<Rightarrow> server
     \<Rightarrow> (server \<times> effect list) option" where
  "createGame throws rnd newToken ws dat connectionId s =
     (let playerName = trim (case data_playerName dat of None \<Rightarrow> [] | Some n \<Rightarrow> n)
      in if playerName = []
         then Some (s, wsSend throws ws (ErrorMsg ''Player name is required''))
         else
           (case generateGameCode rnd (games s) of
              None \<Rightarrow> None
            | Some gameCode \<Rightarrow>
                let playerToken = newToken;
                    game = \<lparr> code = gameCode,
                             host = connectionId,
                             hostToken = playerToken,
                             players = [(connectionId,
                                \<lparr> name = playerName, isHost = True, connection = ws,
                                  token = playerToken, connected_flag = True \<rparr>)],
                             settings =
                               \<lparr> eyeWitness = (case data_eyeWitness dat of None \<Rightarrow> False | Some b \<Rightarrow> b),
                                 bodyGuard = (case data_bodyGuard dat of None \<Rightarrow> False | Some b \<Rightarrow> b) \<rparr>,
                             status = Lobby,
                             roles = None, round_no = None, caseNotes = None,
                             readyStates = None \<rparr>;
                    s' = s \<lparr> games := (games s)(gameCode \<mapsto> game),
                             playerConnections := (playerConnections s)(connectionId \<mapsto> gameCode),
                             playerTokens := (playerTokens s)(playerToken \<mapsto> (gameCode, connectionId)) \<rparr>
                in Some (s', wsSend throws ws
                               (GameCreated gameCode (getPlayerList (games s') gameCode) True playerToken))))"

text \<open>The duplicate-name loop of \<open>joinGame\<close>, which returns at the first collision.\<close>

fun nameTaken :: "(connId \<times> player) list \<Rightarrow> string \<Rightarrow> bool" where
  "nameTaken [] playerName = False"
| "nameTaken ((resourceId, player) # rest) playerName =
     (if toLowerCase (name player) = toLowerCase playerName then True
      else nameTaken rest playerName)"

text \<open>
  \<open>normalised\<close> is the local \<open>gameCode\<close> of \<open>joinGame\<close>. When it has a code unit
  outside the model it is the key of no room, and \<open>this.games.has\<close> is false.
\<close>

definition joinGame ::
  "(socket \<Rightarrow> bool) \<Rightarrow> string \<Rightarrow> socket \<Rightarrow> data \<Rightarrow> connId \<Rightarrow> server \<Rightarrow> server \<times> effect list" where
  "joinGame throws newToken ws dat connectionId s =
     (let playerName = trim (case data_playerName dat of None \<Rightarrow> [] | Some n \<Rightarrow> n);
          normalised = map_option trim
                         (toUpperCase (case data_gameCode dat of None \<Rightarrow> [] | Some c \<Rightarrow> c))
      in if playerName = []
         then (s, wsSend throws ws (ErrorMsg ''Player name is required''))
         else
           (case (case normalised of
                    None \<Rightarrow> None
                  | Some c \<Rightarrow> map_option (Pair c) (games s c)) of
              None \<Rightarrow> (s, wsSend throws ws (ErrorMsg ''Game not found''))
            | Some (gameCode, game) \<Rightarrow>
                if status game \<noteq> Lobby
                then (s, wsSend throws ws (ErrorMsg ''Game has already started''))
                else if nameTaken (players game) playerName
                then (s, wsSend throws ws (ErrorMsg ''That name is already taken''))
                else
                  let playerToken = newToken;
                      game' = game \<lparr> players :=
                                AList.update connectionId
                                  \<lparr> name = playerName, isHost = False, connection = ws,
                                    token = playerToken, connected_flag = True \<rparr>
                                  (players game) \<rparr>;
                      s' = s \<lparr> games := (games s)(gameCode \<mapsto> game'),
                               playerConnections := (playerConnections s)(connectionId \<mapsto> gameCode),
                               playerTokens := (playerTokens s)(playerToken \<mapsto> (gameCode, connectionId)) \<rparr>;
                      joined = wsSend throws ws
                                 (GameJoined gameCode (getPlayerList (games s') gameCode) False playerToken)
                  in (s', if throws ws then joined
                          else joined @ broadcastToGame throws (games s') gameCode
                                          (PlayerListUpdate (getPlayerList (games s') gameCode)))))"

section \<open>Game start\<close>

text \<open>
  The teammate list of a Syndicate member; \<open>None\<close> is the \<open>TypeError\<close> of reading
  \<open>.name\<close> of a player that \<open>game.players.get\<close> does not find.
\<close>

fun teammatesOf :: "(connId \<times> role) list \<Rightarrow> (connId \<times> player) list \<Rightarrow> connId \<Rightarrow> string list option" where
  "teammatesOf [] ps resourceId = Some []"
| "teammatesOf ((rid, r) # rest) ps resourceId =
     (if r = Syndicate \<and> rid \<noteq> resourceId
      then (case map_of ps rid of
              None \<Rightarrow> None
            | Some p \<Rightarrow> map_option (\<lambda>t. name p # t) (teammatesOf rest ps resourceId))
      else teammatesOf rest ps resourceId)"

text \<open>
  The loop that sends each player their role. The test \<open>player.connection\<close> always
  passes, and the \<open>send\<close> is outside any \<open>try\<close>: when it throws, the loop ends there.
\<close>

fun sendRoles ::
  "(socket \<Rightarrow> bool) \<Rightarrow> (connId \<times> role) list \<Rightarrow> (connId \<times> player) list \<Rightarrow> nat
     \<Rightarrow> (connId \<times> player) list \<Rightarrow> effect list" where
  "sendRoles throws rs ps playerCount [] = []"
| "sendRoles throws rs ps playerCount ((resourceId, player) # rest) =
     (let r = (case map_of rs resourceId of None \<Rightarrow> Unknown | Some r \<Rightarrow> r)
      in case (if r = Syndicate then teammatesOf rs ps resourceId else Some []) of
           None \<Rightarrow> [Thrown]
         | Some teammates \<Rightarrow>
             let sent = wsSend throws (connection player)
                          (RoleAssigned r teammates playerCount 0 playerCount)
             in if throws (connection player) then sent
                else sent @ sendRoles throws rs ps playerCount rest)"

definition startGame ::
  "(socket \<Rightarrow> bool) \<Rightarrow> (nat \<Rightarrow> nat \<Rightarrow> nat) \<Rightarrow> socket \<Rightarrow> data \<Rightarrow> connId \<Rightarrow> server \<Rightarrow> server \<times> effect list" where
  "startGame throws rnd ws dat connectionId s =
     (case playerConnections s connectionId of
        None \<Rightarrow> (s, [])
      | Some gameCode \<Rightarrow>
          if gameCode = [] then (s, [])
          else
            (case games s gameCode of
               None \<Rightarrow> (s, [])
             | Some game \<Rightarrow>
                 if host game \<noteq> connectionId
                 then (s, wsSend throws ws (ErrorMsg ''Only the host can start the game''))
                 else if status game \<noteq> Lobby
                 then (s, wsSend throws ws (ErrorMsg ''Game is not in lobby state''))
                 else
                   let playerCount = length (players game)
                   in if playerCount < 5
                      then (s, wsSend throws ws (ErrorMsg ''Need at least 5 players to start''))
                      else
                        let rs = assignRoles rnd game;
                            game' = game \<lparr> roles := Some rs,
                                           status := Playing,
                                           round_no := Some 1,
                                           caseNotes := Some [],
                                           readyStates :=
                                             Some (fold (\<lambda>p m. AList.update (fst p) False m)
                                                        (players game) []) \<rparr>
                        in (s \<lparr> games := (games s)(gameCode \<mapsto> game') \<rparr>,
                            sendRoles throws rs (players game) playerCount (players game))))"

section \<open>Player management\<close>

text \<open>
  \<open>game.readyStates || new Map()\<close>: when the room has a ready map the mark is written into
  it, otherwise into a fresh map that no room refers to.
\<close>

definition playerReady ::
  "(socket \<Rightarrow> bool) \<Rightarrow> socket \<Rightarrow> data \<Rightarrow> connId \<Rightarrow> server \<Rightarrow> server \<times> effect list" where
  "playerReady throws ws dat connectionId s =
     (case playerConnections s connectionId of
        None \<Rightarrow> (s, [])
      | Some gameCode \<Rightarrow>
          if gameCode = [] then (s, [])
          else
            (case games s gameCode of
               None \<Rightarrow> (s, [])
             | Some game \<Rightarrow>
                 let readyStates' =
                       AList.update connectionId True
                         (case readyStates game of None \<Rightarrow> [] | Some m \<Rightarrow> m);
                     s' = (case readyStates game of
                             None \<Rightarrow> s
                           | Some m \<Rightarrow>
                               s \<lparr> games := (games s)
                                     (gameCode \<mapsto> game \<lparr> readyStates := Some readyStates' \<rparr>) \<rparr>);
                     readyCount = length (filter (\<lambda>v. v) (map snd readyStates'));
                     totalPlayers = length (players game)
                 in (s', broadcastToGame throws (games s') gameCode
                           (ReadyUpdate readyCount totalPlayers))))"

definition leaveGame ::
  "(socket \<Rightarrow> bool) \<Rightarrow> socket \<Rightarrow> data \<Rightarrow> connId \<Rightarrow> server \<Rightarrow> server \<times> effect list" where
  "leaveGame throws ws dat connectionId s =
     (case playerConnections s connectionId of
        None \<Rightarrow> (s, [])
      | Some gameCode \<Rightarrow>
          if gameCode = [] then (s, [])
          else
            (case games s gameCode of
               None \<Rightarrow> (s, [])
             | Some game \<Rightarrow>
                 (case map_of (players game) connectionId of
                    None \<Rightarrow> (s, [])
                  | Some player \<Rightarrow>
                      if host game = connectionId
                      then (s \<lparr> games := (games s)(gameCode := None),
                                playerConnections := (playerConnections s)(connectionId := None) \<rparr>,
                            broadcastToGame throws (games s) gameCode
                              (ErrorMsg ''Host left the game. Game ended.''))
                      else
                        let gs' = (games s)
                                    (gameCode \<mapsto>
                                       game \<lparr> players := AList.delete connectionId (players game) \<rparr>)
                        in (s \<lparr> games := gs',
                                 playerConnections := (playerConnections s)(connectionId := None) \<rparr>,
                            broadcastToGame throws gs' gameCode
                              (PlayerListUpdate (getPlayerList gs' gameCode))))))"

text \<open>
  \<open>data_targetId\<close> is \<open>None\<close> when the envelope has no \<open>targetId\<close> or one that is not a
  natural number: the keys of \<open>game.players\<close> are the numbers of the connection counter,
  so the lookup then finds nothing.
\<close>

definition removePlayer ::
  "(socket \<Rightarrow> bool) \<Rightarrow> socket \<Rightarrow> data \<Rightarrow> connId \<Rightarrow> server \<Rightarrow> server \<times> effect list" where
  "removePlayer throws ws dat connectionId s =
     (case playerConnections s connectionId of
        None \<Rightarrow> (s, [])
      | Some gameCode \<Rightarrow>
          if gameCode = [] then (s, [])
          else
            (case games s gameCode of
               None \<Rightarrow> (s, [])
             | Some game \<Rightarrow>
                 if host game \<noteq> connectionId
                 then (s, wsSend throws ws (ErrorMsg ''Only host can remove players''))
                 else
                   (case (case data_targetId dat of
                            None \<Rightarrow> None
                          | Some t \<Rightarrow> map_option (Pair t) (map_of (players game) t)) of
                      None \<Rightarrow> (s, wsSend throws ws (ErrorMsg ''Player not found''))
                    | Some (targetIdent, targetPlayer) \<Rightarrow>
                        let gs' = (games s)
                                    (gameCode \<mapsto>
                                       game \<lparr> players := AList.delete targetIdent (players game) \<rparr>);
                            removed = wsSend throws (connection targetPlayer)
                                        (RemovedFromGame ''You were removed from the game by the host'')
                        in (s \<lparr> games := gs',
                                 playerConnections := (playerConnections s)(targetIdent := None) \<rparr>,
                            if throws (connection targetPlayer) then removed
                            else removed @ broadcastToGame throws gs' gameCode
                                             (PlayerListUpdate (getPlayerList gs' gameCode))))))"

definition onPlayerDisconnect ::
  "(socket \<Rightarrow> bool) \<Rightarrow> connId \<Rightarrow> server \<Rightarrow> server \<times> effect list" where
  "onPlayerDisconnect throws connectionId s =
     (case playerConnections s connectionId of
        None \<Rightarrow> (s, [])
      | Some gameCode \<Rightarrow>
          if gameCode = [] then (s, [])
          else
            (case games s gameCode of
               None \<Rightarrow> (s, [])
             | Some game \<Rightarrow>
                 (case map_of (players game) connectionId of
                    None \<Rightarrow> (s, [])
                  | Some player \<Rightarrow>
                      let gs' = (games s)
                                  (gameCode \<mapsto>
                                     game \<lparr> players :=
                                       AList.update connectionId (player \<lparr> connected_flag := False \<rparr>)
                                         (players game) \<rparr>)
                      in (s \<lparr> games := gs' \<rparr>,
                          broadcastToGame throws gs' gameCode
                            (PlayerDisconnected connectionId (name player))))))"

section \<open>Message handler\<close>

text \<open>
  The inbound payload after \<open>JSON.parse\<close>: \<open>None\<close> when parsing throws, otherwise the
  \<open>action\<close> tag and the fields.
\<close>

definition handleMessage ::
  "(socket \<Rightarrow> bool) \<Rightarrow> (nat \<Rightarrow> nat \<Rightarrow> nat) \<Rightarrow> string \<Rightarrow> socket \<Rightarrow> (string \<times> data) option \<Rightarrow> connId
     \<Rightarrow> server \<Rightarrow> (server \<times> effect list) option" where
  "handleMessage throws rnd newToken ws msg connectionId s =
     (case msg of
        None \<Rightarrow> Some (s, [])
      | Some (action, dat) \<Rightarrow>
          if action = ''createGame'' then createGame throws rnd newToken ws dat connectionId s
          else if action = ''joinGame'' then Some (joinGame throws newToken ws dat connectionId s)
          else if action = ''startGame'' then Some (startGame throws rnd ws dat connectionId s)
          else if action = ''playerReady'' then Some (playerReady throws ws dat connectionId s)
          else if action = ''leaveGame'' then Some (leaveGame throws ws dat connectionId s)
          else if action = ''removePlayer'' then Some (removePlayer throws ws dat connectionId s)
          else Some (s, []))"

definition initialServer :: server where
  "initialServer = \<lparr> games = Map.empty, playerConnections = Map.empty, playerTokens = Map.empty \<rparr>"

section \<open>Observing effects\<close>

text \<open>The messages serialised and the sends attempted by a handler, in order.\<close>

fun stringified :: "effect list \<Rightarrow> message list" where
  "stringified [] = []"
| "stringified (Stringify m # es) = m # stringified es"
| "stringified (e # es) = stringified es"

fun attempts :: "effect list \<Rightarrow> (socket \<times> message) list" where
  "attempts [] = []"
| "attempts (Send w m # es) = (w, m) # attempts es"
| "attempts (e # es) = attempts es"

text \<open>The sockets of the players whose \<open>connected\<close> flag is set, in roster order.\<close>

definition recipients :: "(connId \<times> player) list \<Rightarrow> socket list" where
  "recipients ps = map (\<lambda>p. connection (snd p)) (filter (\<lambda>p. connected_flag (snd p)) ps)"

section \<open>Runs of the server and the host invariant\<close>

text \<open>
  The stores that the server can be in: the empty store, and every store that a message or
  a transport close event produces from one of them.
\<close>

inductive reachable :: "server \<Rightarrow> bool" where
  start: "reachable initialServer"
| message: "reachable s \<Longrightarrow>
            handleMessage throws rnd newToken ws msg connectionId s = Some (s', es) \<Longrightarrow>
            reachable s'"
| close: "reachable s \<Longrightarrow> onPlayerDisconnect throws connectionId s = (s', es) \<Longrightarrow>
          reachable s'"

text \<open>
  Exactly one player of the room has \<open>isHost\<close> set, and its identifier is the
  \<open>host\<close> field of the room.
\<close>

definition hostInvariant :: "game \<Rightarrow> bool" where
  "hostInvariant g \<longleftrightarrow> map fst (filter (\<lambda>p. isHost (snd p)) (players g)) = [host g]"

definition storeInvariant :: "server \<Rightarrow> bool" where
  "storeInvariant s \<longleftrightarrow> (\<forall>c g. games s c = Some g \<longrightarrow> hostInvariant g)"

section \<open>Auxiliary definitions for the proofs\<close>

text \<open>
  The role that the distribution loop gives to the \<open>t\<close>-th non-Syndicate identifier, and
  the role of the \<open>i\<close>-th shuffled identifier when the first \<open>k\<close> are Syndicate.
\<close>

definition roleAt :: "settings \<Rightarrow> nat \<Rightarrow> role" where
  "roleAt st t =
     (if t = 0 then Detective
      else if eyeWitness st \<and> t = 1 then EyeWitness
      else if bodyGuard st \<and> t = (if eyeWitness st then 2 else 1) then BodyGuard
      else InnocentBystander)"

definition roleOfIndex :: "settings \<Rightarrow> nat \<Rightarrow> nat \<Rightarrow> role" where
  "roleOfIndex st k i = (if i < k then Syndicate else roleAt st (i - k))"

text \<open>
  The words of the claim on code normalisation, stated without the string functions of the
  model: the white-space characters, listed one by one, and two characters that differ at
  most in letter case, by the explicit pairing of the small letters with the capitals.
\<close>

definition whiteSpaceCharacters :: string where
  "whiteSpaceCharacters = [CHR 0x09, CHR 0x0A, CHR 0x0B, CHR 0x0C, CHR 0x0D, CHR 0x20, CHR 0xA0]"

definition sameLetter :: "char \<Rightarrow> char \<Rightarrow> bool" where
  "sameLetter a b \<longleftrightarrow>
     a = b
     \<or> (a, b) \<in> set (zip ''abcdefghijklmnopqrstuvwxyz'' ''ABCDEFGHIJKLMNOPQRSTUVWXYZ'')
     \<or> (b, a) \<in> set (zip ''abcdefghijklmnopqrstuvwxyz'' ''ABCDEFGHIJKLMNOPQRSTUVWXYZ'')"

section \<open>Concrete inputs\<close>

text \<open>
  Two random sources: \<open>drawRandom a b\<close> gives at every draw the index that the fraction
  \<open>a / b\<close> of the multiplier rounds down to, and \<open>retryRandom\<close> gives the code
  \<open>KKKK\<close> first and \<open>AAAA\<close> ever after. Two transports, one on which no socket is
  closed and one on which exactly one is. Envelopes, and the stores of a short session:
  Ann (connection 1) creates room \<open>KKKK\<close>, Bob (2) and Cid (3) join, Cid's socket
  closes.
\<close>

definition drawRandom :: "nat \<Rightarrow> nat \<Rightarrow> nat \<Rightarrow> nat \<Rightarrow> nat" where
  "drawRandom a b k m = (a * m) div b"

definition retryRandom :: "nat \<Rightarrow> nat \<Rightarrow> nat" where
  "retryRandom k m = (if k < 4 then drawRandom 3 10 k m else 0)"

definition noneClosed :: "socket \<Rightarrow> bool" where
  "noneClosed w \<longleftrightarrow> False"

definition closedSocket :: "socket \<Rightarrow> socket \<Rightarrow> bool" where
  "closedSocket c w \<longleftrightarrow> w = c"

definition request :: "string \<Rightarrow> string \<Rightarrow> data" where
  "request n c =
     \<lparr> data_playerName = Some n, data_gameCode = Some c, data_eyeWitness = None,
       data_bodyGuard = None, data_targetId = None \<rparr>"

definition targetRequest :: "connId \<Rightarrow> data" where
  "targetRequest t =
     \<lparr> data_playerName = None, data_gameCode = None, data_eyeWitness = None,
       data_bodyGuard = None, data_targetId = Some t \<rparr>"

definition member :: "string \<Rightarrow> bool \<Rightarrow> socket \<Rightarrow> string \<Rightarrow> player" where
  "member n h w t = \<lparr> name = n, isHost = h, connection = w, token = t, connected_flag = True \<rparr>"

definition roomOf :: "(connId \<times> player) list \<Rightarrow> game" where
  "roomOf ps =
     \<lparr> code = ''KKKK'', host = 1, hostToken = ''t1'', players = ps,
       settings = \<lparr> eyeWitness = False, bodyGuard = False \<rparr>,
       status = Lobby, roles = None, round_no = None, caseNotes = None, readyStates = None \<rparr>"

definition soloRoom :: game where
  "soloRoom = roomOf [(1, member ''Ann'' True 11 ''t1'')]"

definition duoRoom :: game where
  "duoRoom = roomOf [(1, member ''Ann'' True 11 ''t1''), (2, member ''Bob'' False 12 ''t2'')]"

definition trioRoom :: game where
  "trioRoom = roomOf [(1, member ''Ann'' True 11 ''t1''), (2, member ''Bob'' False 12 ''t2''),
                      (3, member ''Cid'' False 13 ''t3'')]"

definition awayRoom :: game where
  "awayRoom = roomOf [(1, member ''Ann'' True 11 ''t1''), (2, member ''Bob'' False 12 ''t2''),
                      (3, (member ''Cid'' False 13 ''t3'') \<lparr> connected_flag := False \<rparr>)]"

definition fiveRoom :: game where
  "fiveRoom =
     (roomOf [(1, member ''Ann'' True 11 ''t1''), (2, member ''Bob'' False 12 ''t2''),
              (3, member ''Cid'' False 13 ''t3''), (4, member ''Dee'' False 14 ''t4''),
              (5, member ''Eve'' False 15 ''t5'')])
       \<lparr> settings := \<lparr> eyeWitness = True, bodyGuard = True \<rparr> \<rparr>"

definition soloStore :: server where
  "soloStore =
     \<lparr> games = [''KKKK'' \<mapsto> soloRoom],
       playerConnections = [1 \<mapsto> ''KKKK''],
       playerTokens = [''t1'' \<mapsto> (''KKKK'', 1)] \<rparr>"

definition duoStore :: server where
  "duoStore =
     \<lparr> games = [''KKKK'' \<mapsto> duoRoom],
       playerConnections = [1 \<mapsto> ''KKKK'', 2 \<mapsto> ''KKKK''],
       playerTokens = [''t1'' \<mapsto> (''KKKK'', 1), ''t2'' \<mapsto> (''KKKK'', 2)] \<rparr>"

definition trioStore :: server where
  "trioStore =
     \<lparr> games = [''KKKK'' \<mapsto> trioRoom],
       playerConnections = [1 \<mapsto> ''KKKK'', 2 \<mapsto> ''KKKK'', 3 \<mapsto> ''KKKK''],
       playerTokens = [''t1'' \<mapsto> (''KKKK'', 1), ''t2'' \<mapsto> (''KKKK'', 2),
                       ''t3'' \<mapsto> (''KKKK'', 3)] \<rparr>"

definition awayStore :: server where
  "awayStore = trioStore \<lparr> games := [''KKKK'' \<mapsto> awayRoom] \<rparr>"

definition startedStore :: server where
  "startedStore = trioStore \<lparr> games := [''KKKK'' \<mapsto> trioRoom \<lparr> status := Playing \<rparr>] \<rparr>"

text \<open>
  A second room \<open>AAAA\<close>, created by a connection that is already in room \<open>KKKK\<close>:
  by Ann, the host of \<open>KKKK\<close>, and by Bob, a member of it. The registry then names
  \<open>AAAA\<close> for the creator, whose record in \<open>KKKK\<close> stays.
\<close>

definition secondRoom :: "connId \<Rightarrow> string \<Rightarrow> socket \<Rightarrow> game" where
  "secondRoom c n w =
     (roomOf [(c, member n True w ''t4'')]) \<lparr> code := ''AAAA'', host := c, hostToken := ''t4'' \<rparr>"

definition annSecondStore :: server where
  "annSecondStore =
     \<lparr> games = [''KKKK'' \<mapsto> duoRoom, ''AAAA'' \<mapsto> secondRoom 1 ''Ann'' 11],
       playerConnections = [1 \<mapsto> ''KKKK'', 2 \<mapsto> ''KKKK'', 1 \<mapsto> ''AAAA''],
       playerTokens = [''t1'' \<mapsto> (''KKKK'', 1), ''t2'' \<mapsto> (''KKKK'', 2),
                       ''t4'' \<mapsto> (''AAAA'', 1)] \<rparr>"

definition bobSecondStore :: server where
  "bobSecondStore =
     \<lparr> games = [''KKKK'' \<mapsto> duoRoom, ''AAAA'' \<mapsto> secondRoom 2 ''Bob'' 12],
       playerConnections = [1 \<mapsto> ''KKKK'', 2 \<mapsto> ''AAAA''],
       playerTokens = [''t1'' \<mapsto> (''KKKK'', 1), ''t2'' \<mapsto> (''KKKK'', 2),
                       ''t4'' \<mapsto> (''AAAA'', 2)] \<rparr>"

text \<open>The store after Ann, alone in her room, removes herself, and the room left in it.\<close>

definition hostlessStore :: server where
  "hostlessStore =
     \<lparr> games = [''KKKK'' \<mapsto> roomOf []],
       playerConnections = Map.empty,
       playerTokens = [''t1'' \<mapsto> (''KKKK'', 1)] \<rparr>"

section \<open>Facts about the effect observers\<close>

lemma attempts_append: "attempts (xs @ ys) = attempts xs @ attempts ys"
  by (induction xs rule: attempts.induct) simp_all

lemma stringified_append: "stringified (xs @ ys) = stringified xs @ stringified ys"
  by (induction xs rule: stringified.induct) simp_all

lemma attempts_deliver:
  "attempts (deliver throws m ps) = map (\<lambda>w. (w, m)) (recipients ps)"
  by (induction ps) (auto simp: recipients_def)

lemma stringified_deliver: "stringified (deliver throws m ps) = []"
  by (induction ps) auto

lemma thrown_deliver: "Thrown \<notin> set (deliver throws m ps)"
  by (induction ps) (auto split: if_splits)

lemma errors_deliver:
  "length (filter (\<lambda>e. e = ConsoleError) (deliver throws m ps))
     = length (filter throws (recipients ps))"
  by (induction ps) (auto simp: recipients_def)

section \<open>Facts about the random source\<close>

lemma validRandom_shift: "validRandom rnd \<Longrightarrow> validRandom (\<lambda>i. rnd (i + n))"
  by (simp add: validRandom_def)

lemma validRandom_draw: "a < b \<Longrightarrow> validRandom (drawRandom a b)"
proof -
  assume ab: "a < b"
  have "(a * m) div b < m" if "0 < m" for m
  proof -
    have "a * m < m * b" using ab that by (simp add: mult.commute)
    then show ?thesis using ab by (simp add: div_less_iff_less_mult)
  qed
  then show ?thesis by (simp add: validRandom_def drawRandom_def)
qed

lemma validRandom_retry: "validRandom retryRandom"
  using validRandom_draw[of 3 10] by (simp add: validRandom_def retryRandom_def)

section \<open>Facts about string normalisation\<close>

lemma whiteSpace_listed:
  assumes "ch \<in> set whiteSpaceCharacters"
  shows "isWhiteSpace ch \<and> upperUnits ch = Some [ch]"
proof -
  have "list_all (\<lambda>ch. isWhiteSpace ch \<and> upperUnits ch = Some [ch]) whiteSpaceCharacters"
    by (simp add: whiteSpaceCharacters_def isWhiteSpace_def upperUnits_def)
  then have "\<forall>ch\<in>set whiteSpaceCharacters. isWhiteSpace ch \<and> upperUnits ch = Some [ch]"
    unfolding list_all_iff .
  then show ?thesis using assms by (rule bspec)
qed

lemma characters_plain:
  assumes "ch \<in> set characters"
  shows "\<not> isWhiteSpace ch \<and> upperUnits ch = Some [ch]
         \<and> ch \<notin> set ''abcdefghijklmnopqrstuvwxyz''"
proof -
  have "list_all (\<lambda>ch. \<not> isWhiteSpace ch \<and> upperUnits ch = Some [ch]
                        \<and> ch \<notin> set ''abcdefghijklmnopqrstuvwxyz'') characters"
    by (simp add: characters_def isWhiteSpace_def upperUnits_def)
  then have "\<forall>ch\<in>set characters. \<not> isWhiteSpace ch \<and> upperUnits ch = Some [ch]
                        \<and> ch \<notin> set ''abcdefghijklmnopqrstuvwxyz''"
    unfolding list_all_iff .
  then show ?thesis using assms by (rule bspec)
qed

lemma small_letter_capital:
  assumes "(a, b) \<in> set (zip ''abcdefghijklmnopqrstuvwxyz'' ''ABCDEFGHIJKLMNOPQRSTUVWXYZ'')"
  shows "upperUnits a = Some [b]"
proof -
  have "list_all (\<lambda>p. upperUnits (fst p) = Some [snd p])
          (zip ''abcdefghijklmnopqrstuvwxyz'' ''ABCDEFGHIJKLMNOPQRSTUVWXYZ'')"
    by (simp add: upperUnits_def char_of_def bit_0)
  then have "\<forall>p\<in>set (zip ''abcdefghijklmnopqrstuvwxyz'' ''ABCDEFGHIJKLMNOPQRSTUVWXYZ'').
               upperUnits (fst p) = Some [snd p]"
    unfolding list_all_iff .
  from bspec[OF this assms] show ?thesis by simp
qed

lemma sameLetter_upper:
  assumes "sameLetter a b" and "b \<in> set characters"
  shows "upperUnits a = Some [b]"
proof -
  from assms(1) consider "a = b"
    | "(a, b) \<in> set (zip ''abcdefghijklmnopqrstuvwxyz'' ''ABCDEFGHIJKLMNOPQRSTUVWXYZ'')"
    | "(b, a) \<in> set (zip ''abcdefghijklmnopqrstuvwxyz'' ''ABCDEFGHIJKLMNOPQRSTUVWXYZ'')"
    unfolding sameLetter_def by blast
  then show ?thesis
  proof cases
    case 1
    then show ?thesis using characters_plain[OF assms(2)] by simp
  next
    case 2
    then show ?thesis by (rule small_letter_capital)
  next
    case 3
    then have "b \<in> set ''abcdefghijklmnopqrstuvwxyz''" by (rule set_zip_leftD)
    with characters_plain[OF assms(2)] show ?thesis by (elim conjE) (erule (1) notE)
  qed
qed

lemma toUpperCase_append:
  "toUpperCase (xs @ ys) =
     (case toUpperCase xs of
        None \<Rightarrow> None
      | Some u \<Rightarrow> map_option (\<lambda>rest. u @ rest) (toUpperCase ys))"
proof (induction xs)
  case Nil
  show ?case by (cases "toUpperCase ys") simp_all
next
  case (Cons a xs)
  then show ?case
    by (cases "upperUnits a"; cases "toUpperCase xs"; cases "toUpperCase ys") simp_all
qed

lemma toUpperCase_fixed:
  "\<forall>ch\<in>set xs. upperUnits ch = Some [ch] \<Longrightarrow> toUpperCase xs = Some xs"
  by (induction xs) simp_all

lemma toUpperCase_sameLetter:
  "list_all2 sameLetter body c \<Longrightarrow> set c \<subseteq> set characters \<Longrightarrow> toUpperCase body = Some c"
proof (induction rule: list_all2_induct)
  case Nil
  then show ?case by simp
next
  case (Cons a as b bs)
  then show ?case by (simp add: sameLetter_upper)
qed


lemma trim_padded:
  assumes "\<forall>ch\<in>set pre. isWhiteSpace ch" and "\<forall>ch\<in>set post. isWhiteSpace ch"
    and "\<forall>ch\<in>set body. \<not> isWhiteSpace ch"
  shows "trim (pre @ body @ post) = body"
proof (cases "body = []")
  case True
  have e: "dropWhile isWhiteSpace (pre @ post) = []"
    unfolding dropWhile_eq_Nil_conv using assms(1,2) by auto
  have "trim (pre @ [] @ post) = []"
    unfolding trim_def append_Nil e by simp
  then show ?thesis using True by simp
next
  case False
  then obtain a rest where front: "body = a # rest" by (cases body) auto
  from False obtain bs b where last_eq: "body = bs @ [b]" by (cases body rule: rev_cases) auto
  have a: "\<not> isWhiteSpace a" using assms(3) front by simp
  have b: "\<not> isWhiteSpace b" using assms(3) last_eq by simp
  have "dropWhile isWhiteSpace (pre @ body @ post) = dropWhile isWhiteSpace (body @ post)"
    using assms(1) by (intro dropWhile_append2) simp
  also have "\<dots> = body @ post" using a front by simp
  finally have l: "dropWhile isWhiteSpace (pre @ body @ post) = body @ post" .
  have "dropWhile isWhiteSpace (rev post @ rev body) = dropWhile isWhiteSpace (rev body)"
    using assms(2) by (intro dropWhile_append2) simp
  then have "dropWhile isWhiteSpace (rev (body @ post)) = dropWhile isWhiteSpace (rev body)"
    by simp
  also have "\<dots> = rev body" using b last_eq by simp
  finally have r: "dropWhile isWhiteSpace (rev (body @ post)) = rev body" .
  show ?thesis unfolding trim_def l r by simp
qed

lemma normalise_code:
  assumes "set c \<subseteq> set characters"
    and "set pre \<subseteq> set whiteSpaceCharacters" and "set post \<subseteq> set whiteSpaceCharacters"
    and "list_all2 sameLetter body c"
  shows "map_option trim (toUpperCase (pre @ body @ post)) = Some c"
proof -
  have pre: "\<forall>ch\<in>set pre. isWhiteSpace ch \<and> upperUnits ch = Some [ch]"
    using assms(2) whiteSpace_listed by (meson subsetD)
  have post: "\<forall>ch\<in>set post. isWhiteSpace ch \<and> upperUnits ch = Some [ch]"
    using assms(3) whiteSpace_listed by (meson subsetD)
  have u1: "toUpperCase pre = Some pre" using pre by (intro toUpperCase_fixed) blast
  have u2: "toUpperCase post = Some post" using post by (intro toUpperCase_fixed) blast
  have u3: "toUpperCase body = Some c"
    using assms(4,1) by (rule toUpperCase_sameLetter)
  have up: "toUpperCase (pre @ body @ post) = Some (pre @ c @ post)"
    by (simp add: toUpperCase_append u1 u2 u3)
  have plain: "\<forall>ch\<in>set c. \<not> isWhiteSpace ch"
    using assms(1) characters_plain by (meson subsetD)
  have "trim (pre @ c @ post) = c"
    using pre post plain by (intro trim_padded) blast+
  then show ?thesis by (simp add: up)
qed

lemma canonical_code_fixed:
  assumes "set c \<subseteq> set characters"
  shows "map_option trim (toUpperCase c) = Some c"
proof -
  have "list_all2 sameLetter c c" by (simp add: list_all2_same sameLetter_def)
  from normalise_code[OF assms _ _ this, of "[]" "[]"] show ?thesis by simp
qed


section \<open>Facts about association lists\<close>

lemma update_fresh: "k \<notin> fst ` set al \<Longrightarrow> AList.update k v al = al @ [(k, v)]"
  by (induction al) auto

lemma delete_filter: "AList.delete k ps = filter (\<lambda>p. fst p \<noteq> k) ps"
  by (induction ps) auto

lemma update_same_hosts:
  "map_of ps k = Some p \<Longrightarrow>
     map (\<lambda>q. isHost (snd q)) (AList.update k (p \<lparr> connected_flag := False \<rparr>) ps)
       = map (\<lambda>q. isHost (snd q)) ps"
  by (induction ps) (auto split: if_splits)

lemma getPlayerList_ids:
  "gs gameCode = Some game \<Longrightarrow> map info_id (getPlayerList gs gameCode) = map fst (players game)"
  by (simp add: getPlayerList_def comp_def case_prod_beta)

lemma nameTaken_iff:
  "nameTaken ps n \<longleftrightarrow> (\<exists>p\<in>set ps. toLowerCase (name (snd p)) = toLowerCase n)"
  by (induction ps n rule: nameTaken.induct) auto


section \<open>Game codes\<close>

lemma charAt_characters:
  assumes "validRandom rnd"
  shows "\<exists>c. charAt characters (int (rnd k (length characters))) = [c] \<and> c \<in> set characters"
proof -
  have len: "0 < length characters" by (simp add: characters_def)
  then have i: "rnd k (length characters) < length characters"
    using assms by (simp add: validRandom_def)
  then have "characters ! rnd k (length characters) \<in> set characters" by (rule nth_mem)
  moreover have "charAt characters (int (rnd k (length characters)))
                   = [characters ! rnd k (length characters)]"
    using i by (simp add: charAt_def)
  ultimately show ?thesis by blast
qed

lemma randomCode_shape:
  assumes "validRandom rnd"
  shows "length (randomCode rnd) = 4 \<and> set (randomCode rnd) \<subseteq> set characters"
proof -
  note d = charAt_characters[OF assms]
  obtain c0 where c0: "charAt characters (int (rnd 0 (length characters))) = [c0]" "c0 \<in> set characters"
    using d[of 0] by blast
  obtain c1 where c1: "charAt characters (int (rnd 1 (length characters))) = [c1]" "c1 \<in> set characters"
    using d[of 1] by blast
  obtain c2 where c2: "charAt characters (int (rnd 2 (length characters))) = [c2]" "c2 \<in> set characters"
    using d[of 2] by blast
  obtain c3 where c3: "charAt characters (int (rnd 3 (length characters))) = [c3]" "c3 \<in> set characters"
    using d[of 3] by blast
  have "[0..<4] = [0, 1, 2, 3::nat]" by (simp add: upt_rec)
  then have "randomCode rnd = [c0, c1, c2, c3]"
    using c0(1) c1(1) c2(1) c3(1) by (simp add: randomCode_def)
  then show ?thesis using c0(2) c1(2) c2(2) c3(2) by simp
qed

lemma characters_unambiguous: "set characters \<inter> set ''IO01'' = {}"
  by (simp add: characters_def)

lemma generateGameCode_first_try:
  "gs (randomCode rnd) = None \<Longrightarrow> generateGameCode rnd gs = Some (randomCode rnd)"
  by (subst generateGameCode.simps) simp

lemma generateGameCode_retry:
  "gs (randomCode rnd) \<noteq> None \<Longrightarrow> generateGameCode rnd gs = generateGameCode (\<lambda>i. rnd (i + 4)) gs"
  by (subst generateGameCode.simps) (simp add: Let_def)

lemma generateGameCode_returns:
  "gs (randomCode (\<lambda>i. rnd (i + 4 * n))) = None \<Longrightarrow> \<exists>c. generateGameCode rnd gs = Some c"
proof (induction n arbitrary: rnd)
  case 0
  then show ?case by (simp add: generateGameCode_first_try)
next
  case (Suc n)
  show ?case
  proof (cases "gs (randomCode rnd) = None")
    case True
    then show ?thesis by (simp add: generateGameCode_first_try)
  next
    case False
    have "gs (randomCode (\<lambda>i. (\<lambda>i. rnd (i + 4)) (i + 4 * n))) = None"
      using Suc.prems by (simp add: ac_simps)
    then have "\<exists>c. generateGameCode (\<lambda>i. rnd (i + 4)) gs = Some c"
      by (rule Suc.IH)
    then show ?thesis using False by (simp add: generateGameCode_retry)
  qed
qed

lemma generateGameCode_result:
  assumes "generateGameCode rnd gs = Some c"
  shows "validRandom rnd \<longrightarrow> length c = 4 \<and> set c \<subseteq> set characters \<and> gs c = None"
proof (rule generateGameCode.raw_induct
    [where P = "\<lambda>rnd gs c. validRandom rnd \<longrightarrow> length c = 4 \<and> set c \<subseteq> set characters \<and> gs c = None",
     OF _ assms])
  fix gen :: "(nat \<Rightarrow> nat \<Rightarrow> nat) \<Rightarrow> (string \<rightharpoonup> game) \<Rightarrow> string option"
  fix rnd gs c
  assume IH: "\<And>r g y. gen r g = Some y \<Longrightarrow>
    validRandom r \<longrightarrow> length y = 4 \<and> set y \<subseteq> set characters \<and> g y = None"
  assume body: "(let gameCode = randomCode rnd
      in if gs gameCode \<noteq> None then gen (\<lambda>i. rnd (i + 4)) gs else Some gameCode) = Some c"
  show "validRandom rnd \<longrightarrow> length c = 4 \<and> set c \<subseteq> set characters \<and> gs c = None"
  proof (cases "gs (randomCode rnd) = None")
    case True
    with body have "c = randomCode rnd" by (simp add: Let_def)
    with True randomCode_shape[of rnd] show ?thesis by simp
  next
    case False
    with body have "gen (\<lambda>i. rnd (i + 4)) gs = Some c"
      by (simp add: Let_def)
    then have "validRandom (\<lambda>i. rnd (i + 4)) \<longrightarrow> length c = 4 \<and> set c \<subseteq> set characters \<and> gs c = None"
      by (rule IH)
    then show ?thesis by (simp add: validRandom_shift)
  qed
qed

text \<open>
  Claim C6. Every code that \<open>generateGameCode\<close> returns has exactly four characters, each
  of them from the alphabet \<open>ABCDEFGHJKLMNPQRSTUVWXYZ23456789\<close>, which contains none of
  \<open>I\<close>, \<open>O\<close>, \<open>0\<close>, \<open>1\<close>, and is the code of no room of the store at the moment it
  is returned. Every random index is below its multiplier.
\<close>

theorem generateGameCode_fresh:
  assumes "generateGameCode rnd gs = Some c" and "validRandom rnd"
  shows "length c = 4 \<and> set c \<subseteq> set characters \<and> set characters \<inter> set ''IO01'' = {} \<and> gs c = None"
  using generateGameCode_result[OF assms(1)] assms(2) characters_unambiguous by simp

text \<open>
  The store holds room \<open>KKKK\<close>; the first four draws spell \<open>KKKK\<close>, so the loop goes
  round again, and the next four spell \<open>AAAA\<close>.
\<close>

theorem generateGameCode_fresh_witness:
  "generateGameCode retryRandom [''KKKK'' \<mapsto> soloRoom] = Some ''AAAA'' \<and> validRandom retryRandom
   \<and> length ''AAAA'' = 4 \<and> set ''AAAA'' \<subseteq> set characters \<and> set characters \<inter> set ''IO01'' = {}
   \<and> [''KKKK'' \<mapsto> soloRoom] ''AAAA'' = None"
proof -
  have r1: "randomCode retryRandom = ''KKKK''"
    by (simp add: randomCode_def charAt_def characters_def retryRandom_def drawRandom_def upt_rec)
  have r2: "randomCode (\<lambda>i. retryRandom (i + 4)) = ''AAAA''"
    by (simp add: randomCode_def charAt_def characters_def retryRandom_def upt_rec)
  have "generateGameCode retryRandom [''KKKK'' \<mapsto> soloRoom]
          = generateGameCode (\<lambda>i. retryRandom (i + 4)) [''KKKK'' \<mapsto> soloRoom]"
    by (rule generateGameCode_retry) (simp add: r1)
  also have "\<dots> = Some ''AAAA''"
    using generateGameCode_first_try[of "[''KKKK'' \<mapsto> soloRoom]" "\<lambda>i. retryRandom (i + 4)"]
    by (simp add: r2)
  finally have g: "generateGameCode retryRandom [''KKKK'' \<mapsto> soloRoom] = Some ''AAAA''" .
  from generateGameCode_fresh[OF g validRandom_retry] g validRandom_retry show ?thesis by simp
qed

section \<open>Role assignment\<close>

lemma ceil_third: "nat \<lceil>real n / 3\<rceil> = (n + 2) div 3"
  by linarith

lemma mset_shuffle:
  "validRandom rnd \<Longrightarrow> i < length xs \<Longrightarrow> mset (shuffle rnd i xs) = mset xs"
proof (induction i arbitrary: rnd xs)
  case 0
  then show ?case by simp
next
  case (Suc i)
  define j where "j = rnd 0 (Suc i + 1)"
  have "j < Suc i + 1"
    unfolding j_def using Suc.prems(1) by (simp add: validRandom_def)
  then have j: "j < length xs" using Suc.prems(2) by simp
  let ?ys = "xs[Suc i := xs ! j, j := xs ! Suc i]"
  have sw: "mset ?ys = mset xs"
    using mset_swap[OF j Suc.prems(2)] .
  have "mset (shuffle (\<lambda>k. rnd (k + 1)) i ?ys) = mset ?ys"
    using Suc.prems by (intro Suc.IH validRandom_shift) simp_all
  then show ?case using sw by (simp add: Let_def j_def)
qed

lemma keys_indexed: "fst ` set (map (\<lambda>i. (ids ! i, f i)) [a..<b]) = (\<lambda>i. ids ! i) ` {a..<b}"
  by (simp add: image_image)

lemma nth_fresh:
  assumes "distinct ids" and "b < length ids"
  shows "ids ! b \<notin> (\<lambda>i. ids ! i) ` {..<b}"
proof
  assume "ids ! b \<in> (\<lambda>i. ids ! i) ` {..<b}"
  then obtain i where i: "i < b" "ids ! b = ids ! i" by auto
  with assms have "b = i" by (simp add: nth_eq_iff_index_eq)
  with i show False by simp
qed

lemma syndicate_fold:
  assumes "distinct ids"
  shows "k \<le> length ids \<Longrightarrow>
    fold (\<lambda>i rs. AList.update (ids ! i) Syndicate rs) [0..<k] []
      = map (\<lambda>i. (ids ! i, Syndicate)) [0..<k]"
proof (induction k)
  case 0
  then show ?case by simp
next
  case (Suc k)
  then have IH: "fold (\<lambda>i rs. AList.update (ids ! i) Syndicate rs) [0..<k] []
      = map (\<lambda>i. (ids ! i, Syndicate)) [0..<k]" by simp
  have "ids ! k \<notin> (\<lambda>i. ids ! i) ` {..<k}"
    using assms Suc.prems by (intro nth_fresh) simp_all
  then have "ids ! k \<notin> fst ` set (map (\<lambda>i. (ids ! i, Syndicate)) [0..<k])"
    unfolding keys_indexed atLeast0LessThan .
  then show ?case by (simp add: IH update_fresh)
qed

lemma innocent_fold:
  assumes "distinct ids" and "fst ` set rs0 = (\<lambda>i. ids ! i) ` {..<k}" and "k \<le> b"
  shows "b \<le> length ids \<Longrightarrow>
    fold (innocentStep st ids) [k..<b] (rs0, False, False, False)
      = (rs0 @ map (\<lambda>i. (ids ! i, roleAt st (i - k))) [k..<b],
         1 \<le> b - k,
         eyeWitness st \<and> 2 \<le> b - k,
         bodyGuard st \<and> (if eyeWitness st then 3 else 2) \<le> b - k)"
  using assms(3)
proof (induction b rule: dec_induct)
  case base
  then show ?case by simp
next
  case (step b)
  then have IH: "fold (innocentStep st ids) [k..<b] (rs0, False, False, False)
      = (rs0 @ map (\<lambda>i. (ids ! i, roleAt st (i - k))) [k..<b],
         1 \<le> b - k,
         eyeWitness st \<and> 2 \<le> b - k,
         bodyGuard st \<and> (if eyeWitness st then 3 else 2) \<le> b - k)" by simp
  define acc where "acc = rs0 @ map (\<lambda>i. (ids ! i, roleAt st (i - k))) [k..<b]"
  have "fst ` set acc = (\<lambda>i. ids ! i) ` {..<k} \<union> (\<lambda>i. ids ! i) ` {k..<b}"
    unfolding acc_def using assms(2) by (simp only: set_append image_Un keys_indexed)
  also have "\<dots> = (\<lambda>i. ids ! i) ` ({..<k} \<union> {k..<b})"
    by (simp only: image_Un)
  also have "{..<k} \<union> {k..<b} = {..<b}"
    using step.hyps(1) by auto
  finally have keys: "fst ` set acc = (\<lambda>i. ids ! i) ` {..<b}" .
  have "ids ! b \<notin> (\<lambda>i. ids ! i) ` {..<b}"
    using assms(1) step.prems by (intro nth_fresh) simp_all
  then have fresh: "\<And>v. AList.update (ids ! b) v acc = acc @ [(ids ! b, v)]"
    using keys by (intro update_fresh) simp
  have one: "innocentStep st ids b
               (acc, 1 \<le> b - k, eyeWitness st \<and> 2 \<le> b - k,
                bodyGuard st \<and> (if eyeWitness st then 3 else 2) \<le> b - k)
             = (acc @ [(ids ! b, roleAt st (b - k))],
                1 \<le> Suc b - k, eyeWitness st \<and> 2 \<le> Suc b - k,
                bodyGuard st \<and> (if eyeWitness st then 3 else 2) \<le> Suc b - k)"
    using step.hyps(1) by (auto simp add: innocentStep_def fresh roleAt_def)
  have up: "[k..<Suc b] = [k..<b] @ [b]" using step.hyps(1) by simp
  have "fold (innocentStep st ids) [k..<Suc b] (rs0, False, False, False)
          = innocentStep st ids b (fold (innocentStep st ids) [k..<b] (rs0, False, False, False))"
    unfolding up by simp
  also have "\<dots> = (acc @ [(ids ! b, roleAt st (b - k))],
                1 \<le> Suc b - k, eyeWitness st \<and> 2 \<le> Suc b - k,
                bodyGuard st \<and> (if eyeWitness st then 3 else 2) \<le> Suc b - k)"
    unfolding IH acc_def[symmetric] by (rule one)
  finally show ?case unfolding acc_def up by simp
qed


lemma assignRoles_indexed:
  assumes "distinct (map fst (players game))" and "validRandom rnd"
  defines "n \<equiv> length (players game)"
  defines "ids \<equiv> shuffle rnd (n - 1) (map fst (players game))"
  shows "assignRoles rnd game
           = map (\<lambda>i. (ids ! i, roleOfIndex (settings game) ((n + 2) div 3) i)) [0..<n]"
    and "mset ids = mset (map fst (players game))"
proof -
  let ?k = "(n + 2) div 3"
  show perm: "mset ids = mset (map fst (players game))"
  proof (cases "n = 0")
    case True
    then show ?thesis by (simp add: ids_def n_def)
  next
    case False
    then show ?thesis
      unfolding ids_def using assms(2) by (intro mset_shuffle) (simp_all add: n_def)
  qed
  then have len: "length ids = n"
    using mset_eq_length[OF perm] by (simp add: n_def)
  have dist: "distinct ids"
    using assms(1) mset_eq_imp_distinct_iff[OF perm] by simp
  have kn: "?k \<le> n" by simp
  have synd: "fold (\<lambda>i rs. AList.update (ids ! i) Syndicate rs) [0..<?k] []
                = map (\<lambda>i. (ids ! i, Syndicate)) [0..<?k]"
    using dist kn len by (intro syndicate_fold) simp_all
  have keys: "fst ` set (map (\<lambda>i. (ids ! i, Syndicate)) [0..<?k]) = (\<lambda>i. ids ! i) ` {..<?k}"
    unfolding keys_indexed atLeast0LessThan ..
  have inn: "fold (innocentStep (settings game) ids) [?k..<n]
               (map (\<lambda>i. (ids ! i, Syndicate)) [0..<?k], False, False, False)
             = (map (\<lambda>i. (ids ! i, Syndicate)) [0..<?k]
                  @ map (\<lambda>i. (ids ! i, roleAt (settings game) (i - ?k))) [?k..<n],
                1 \<le> n - ?k,
                eyeWitness (settings game) \<and> 2 \<le> n - ?k,
                bodyGuard (settings game) \<and> (if eyeWitness (settings game) then 3 else 2) \<le> n - ?k)"
    using dist keys kn len by (intro innocent_fold) simp_all
  have split: "[0..<n] = [0..<?k] @ [?k..<n]"
    using kn by (metis le_add_diff_inverse upt_add_eq_append zero_le)
  have "assignRoles rnd game
          = map (\<lambda>i. (ids ! i, Syndicate)) [0..<?k]
              @ map (\<lambda>i. (ids ! i, roleAt (settings game) (i - ?k))) [?k..<n]"
    unfolding assignRoles_def Let_def ceil_third n_def[symmetric] length_map ids_def[symmetric]
      synd inn by simp
  also have "\<dots> = map (\<lambda>i. (ids ! i, roleOfIndex (settings game) ?k i)) [0..<n]"
    unfolding split by (simp add: roleOfIndex_def)
  finally show "assignRoles rnd game
           = map (\<lambda>i. (ids ! i, roleOfIndex (settings game) ((n + 2) div 3) i)) [0..<n]" .
qed

lemma countRole_indexed:
  "countRole r (map (\<lambda>i. (ids ! i, f i)) [0..<n]) = card {i. i < n \<and> f i = r}"
proof -
  have "countRole r (map (\<lambda>i. (ids ! i, f i)) [0..<n]) = length (filter (\<lambda>i. f i = r) [0..<n])"
    by (simp add: countRole_def filter_map comp_def)
  also have "\<dots> = card {i. i < n \<and> f ([0..<n] ! i) = r}"
    by (simp add: length_filter_conv_card)
  also have "{i. i < n \<and> f ([0..<n] ! i) = r} = {i. i < n \<and> f i = r}"
    by auto
  finally show ?thesis .
qed

lemma count_syndicate: "k \<le> n \<Longrightarrow> card {i. i < n \<and> roleOfIndex st k i = Syndicate} = k"
proof -
  assume "k \<le> n"
  then have "{i. i < n \<and> roleOfIndex st k i = Syndicate} = {..<k}"
    by (auto simp: roleOfIndex_def roleAt_def)
  then show ?thesis by simp
qed

lemma count_detective:
  "card {i. i < n \<and> roleOfIndex st k i = Detective} = (if k < n then 1 else 0)"
proof -
  have "{i. i < n \<and> roleOfIndex st k i = Detective} = (if k < n then {k} else {})"
    by (auto simp: roleOfIndex_def roleAt_def split: if_splits)
  then show ?thesis by simp
qed

lemma count_eyeWitness:
  "card {i. i < n \<and> roleOfIndex st k i = EyeWitness}
     = (if eyeWitness st \<and> 2 \<le> n - k then 1 else 0)"
proof -
  have "{i. i < n \<and> roleOfIndex st k i = EyeWitness}
          = (if eyeWitness st \<and> 2 \<le> n - k then {k + 1} else {})"
    by (auto simp: roleOfIndex_def roleAt_def split: if_splits)
  then show ?thesis by simp
qed

lemma count_bodyGuard:
  "card {i. i < n \<and> roleOfIndex st k i = BodyGuard}
     = (if bodyGuard st \<and> (if eyeWitness st then 3 else 2) \<le> n - k then 1 else 0)"
proof -
  have "{i. i < n \<and> roleOfIndex st k i = BodyGuard}
          = (if bodyGuard st \<and> (if eyeWitness st then 3 else 2) \<le> n - k
             then {k + (if eyeWitness st then 2 else 1)} else {})"
    by (auto simp: roleOfIndex_def roleAt_def split: if_splits)
  then show ?thesis by simp
qed

lemma count_unknown: "card {i. i < n \<and> roleOfIndex st k i = Unknown} = 0"
  by (simp add: roleOfIndex_def roleAt_def)

lemma countRole_total:
  "length rs = countRole Syndicate rs + countRole Detective rs + countRole EyeWitness rs
     + countRole BodyGuard rs + countRole InnocentBystander rs + countRole Unknown rs"
proof (induction rs)
  case Nil
  then show ?case by (simp add: countRole_def)
next
  case (Cons p rs)
  then show ?case by (cases "snd p") (simp_all add: countRole_def)
qed


text \<open>
  Claim C1, as amended. For the players of a room (\<open>n\<close> distinct identifiers) and any
  settings, \<open>assignRoles\<close> maps each identifier to exactly one role; exactly
  \<open>ceil(n/3)\<close> identifiers are Syndicate; exactly one is Detective when \<open>n \<ge> 2\<close> and none
  when \<open>n \<le> 1\<close>; there is one Eye Witness iff the setting is enabled and a second
  non-Syndicate slot exists, one Body Guard iff the setting is enabled and a further slot
  exists; no identifier gets the fallback label, so all others are Innocent Bystander and
  the roles add up to \<open>n\<close>.
\<close>

theorem assignRoles_distribution:
  assumes "distinct (map fst (players game))" and "validRandom rnd"
  shows "let n = length (players game);
             m = n - nat \<lceil>real n / 3\<rceil>;
             rs = assignRoles rnd game
         in length rs = n \<and> distinct (map fst rs)
            \<and> set (map fst rs) = set (map fst (players game))
            \<and> countRole Syndicate rs = nat \<lceil>real n / 3\<rceil>
            \<and> countRole Detective rs = (if 2 \<le> n then 1 else 0)
            \<and> countRole EyeWitness rs = (if eyeWitness (settings game) \<and> 2 \<le> m then 1 else 0)
            \<and> countRole BodyGuard rs =
                  (if bodyGuard (settings game) \<and> (if eyeWitness (settings game) then 3 else 2) \<le> m
                   then 1 else 0)
            \<and> countRole Unknown rs = 0
            \<and> countRole Syndicate rs + countRole Detective rs + countRole EyeWitness rs
                  + countRole BodyGuard rs + countRole InnocentBystander rs = n"
proof -
  define n where "n = length (players game)"
  define k where "k = (n + 2) div 3"
  define ids where "ids = shuffle rnd (n - 1) (map fst (players game))"
  define rs where "rs = assignRoles rnd game"
  have rs: "rs = map (\<lambda>i. (ids ! i, roleOfIndex (settings game) k i)) [0..<n]"
    unfolding rs_def ids_def n_def k_def by (rule assignRoles_indexed(1)[OF assms])
  have perm: "mset ids = mset (map fst (players game))"
    unfolding ids_def n_def by (rule assignRoles_indexed(2)[OF assms])
  have len_ids: "length ids = n"
    using mset_eq_length[OF perm] by (simp add: n_def)
  have keys: "map fst rs = ids"
    unfolding rs by (simp add: comp_def len_ids[symmetric] map_nth)
  have c1: "length rs = n" by (simp add: rs)
  have c2: "distinct (map fst rs)"
    unfolding keys using assms(1) mset_eq_imp_distinct_iff[OF perm] by simp
  have c3: "set (map fst rs) = set (map fst (players game))"
    unfolding keys by (rule mset_eq_setD[OF perm])
  have kn: "k \<le> n" by (simp add: k_def)
  have c4: "countRole Syndicate rs = k"
    unfolding rs countRole_indexed by (rule count_syndicate[OF kn])
  have "countRole Detective rs = (if k < n then 1 else 0)"
    unfolding rs countRole_indexed by (rule count_detective)
  moreover have "k < n \<longleftrightarrow> 2 \<le> n" unfolding k_def by linarith
  ultimately have c5: "countRole Detective rs = (if 2 \<le> n then 1 else 0)" by simp
  have c6: "countRole EyeWitness rs = (if eyeWitness (settings game) \<and> 2 \<le> n - k then 1 else 0)"
    unfolding rs countRole_indexed by (rule count_eyeWitness)
  have c7: "countRole BodyGuard rs =
              (if bodyGuard (settings game) \<and> (if eyeWitness (settings game) then 3 else 2) \<le> n - k
               then 1 else 0)"
    unfolding rs countRole_indexed by (rule count_bodyGuard)
  have c8: "countRole Unknown rs = 0"
    unfolding rs countRole_indexed by (rule count_unknown)
  have c9: "countRole Syndicate rs + countRole Detective rs + countRole EyeWitness rs
              + countRole BodyGuard rs + countRole InnocentBystander rs = n"
    using countRole_total[of rs] c1 c8 by simp
  have kc: "nat \<lceil>real n / 3\<rceil> = k" unfolding k_def by (rule ceil_third)
  show ?thesis
    unfolding Let_def n_def[symmetric] rs_def[symmetric] kc
    using c1 c2 c3 c4 c5 c6 c7 c8 c9 by simp
qed

text \<open>Five players with both optional roles enabled: 2 + 1 + 1 + 1 + 0.\<close>

theorem assignRoles_distribution_witness:
  "distinct (map fst (players fiveRoom)) \<and> validRandom (drawRandom 1 2)
   \<and> length (assignRoles (drawRandom 1 2) fiveRoom) = 5
   \<and> countRole Syndicate (assignRoles (drawRandom 1 2) fiveRoom) = 2
   \<and> countRole Detective (assignRoles (drawRandom 1 2) fiveRoom) = 1
   \<and> countRole EyeWitness (assignRoles (drawRandom 1 2) fiveRoom) = 1
   \<and> countRole BodyGuard (assignRoles (drawRandom 1 2) fiveRoom) = 1
   \<and> countRole InnocentBystander (assignRoles (drawRandom 1 2) fiveRoom) = 0"
proof -
  have d: "distinct (map fst (players fiveRoom))" by (simp add: fiveRoom_def roomOf_def)
  have v: "validRandom (drawRandom 1 2)" by (simp add: validRandom_draw)
  have n: "length (players fiveRoom) = 5" by (simp add: fiveRoom_def roomOf_def)
  have c: "nat \<lceil>real 5 / 3\<rceil> = 2" by (simp add: ceil_third)
  have st: "eyeWitness (settings fiveRoom)" "bodyGuard (settings fiveRoom)"
    by (simp_all add: fiveRoom_def roomOf_def)
  show ?thesis
    using assignRoles_distribution[OF d v] d v unfolding Let_def n c by (simp add: st)
qed

text \<open>
  Claim C1 as stated asks for exactly one Detective for every \<open>n\<close>; a room with a single
  player gets one Syndicate member and no Detective.
\<close>

theorem assignRoles_solo_counterexample:
  "distinct (map fst (players soloRoom)) \<and> validRandom (drawRandom 0 2)
   \<and> length (players soloRoom) = 1
   \<and> assignRoles (drawRandom 0 2) soloRoom = [(1, Syndicate)]
   \<and> countRole Detective (assignRoles (drawRandom 0 2) soloRoom) \<noteq> 1"
proof -
  have "nat \<lceil>real 1 / 3\<rceil> = 1" using ceil_third[of 1] by simp
  then have "assignRoles (drawRandom 0 2) soloRoom = [(1, Syndicate)]"
    by (simp add: assignRoles_def soloRoom_def roomOf_def)
  then show ?thesis
    by (simp add: soloRoom_def roomOf_def validRandom_draw countRole_def)
qed

section \<open>Broadcast\<close>

text \<open>
  Claim C8. For every room and message, \<open>broadcastToGame\<close> serialises the message exactly
  once and attempts one delivery to each player whose \<open>connected\<close> flag is set, in roster
  order, and none to a player whose flag is cleared. This holds for every transport, so a
  \<open>send\<close> that throws stops no later attempt and is not repeated: it is logged once, and
  no exception leaves the function.
\<close>

theorem broadcastToGame_fanout:
  assumes "gs gameCode = Some game"
  shows "stringified (broadcastToGame throws gs gameCode m) = [m]
         \<and> attempts (broadcastToGame throws gs gameCode m)
             = map (\<lambda>w. (w, m)) (recipients (players game))
         \<and> length (filter (\<lambda>e. e = ConsoleError) (broadcastToGame throws gs gameCode m))
             = length (filter throws (recipients (players game)))
         \<and> Thrown \<notin> set (broadcastToGame throws gs gameCode m)"
  using assms
  by (simp add: broadcastToGame_def attempts_deliver stringified_deliver thrown_deliver
      errors_deliver)

text \<open>Ann's socket is closed, Cid is marked disconnected: Ann and Bob are tried, each once.\<close>

theorem broadcastToGame_fanout_witness:
  "[''KKKK'' \<mapsto> awayRoom] ''KKKK'' = Some awayRoom
   \<and> stringified (broadcastToGame (closedSocket 11) [''KKKK'' \<mapsto> awayRoom] ''KKKK'' (ReadyUpdate 1 3))
       = [ReadyUpdate 1 3]
   \<and> attempts (broadcastToGame (closedSocket 11) [''KKKK'' \<mapsto> awayRoom] ''KKKK'' (ReadyUpdate 1 3))
       = [(11, ReadyUpdate 1 3), (12, ReadyUpdate 1 3)]"
proof -
  have g: "[''KKKK'' \<mapsto> awayRoom] ''KKKK'' = Some awayRoom" by simp
  have r: "recipients (players awayRoom) = [11, 12]"
    by (simp add: recipients_def awayRoom_def roomOf_def member_def)
  show ?thesis
    using broadcastToGame_fanout[where gs = "[''KKKK'' \<mapsto> awayRoom]" and gameCode = "''KKKK''"
        and game = awayRoom and throws = "closedSocket 11" and m = "ReadyUpdate 1 3", OF g] g
    by (simp add: r)
qed

section \<open>The example session\<close>

lemma randomCode_K: "randomCode (drawRandom 3 10) = ''KKKK''"
  by (simp add: randomCode_def charAt_def characters_def drawRandom_def upt_rec)

lemma randomCode_A: "randomCode (drawRandom 0 2) = ''AAAA''"
  by (simp add: randomCode_def charAt_def characters_def drawRandom_def upt_rec)

lemma generate_K: "gs ''KKKK'' = None \<Longrightarrow> generateGameCode (drawRandom 3 10) gs = Some ''KKKK''"
  using generateGameCode_first_try[of gs "drawRandom 3 10"] by (simp add: randomCode_K)

lemma generate_A: "gs ''AAAA'' = None \<Longrightarrow> generateGameCode (drawRandom 0 2) gs = Some ''AAAA''"
  using generateGameCode_first_try[of gs "drawRandom 0 2"] by (simp add: randomCode_A)

lemmas string_eval =
  trim_def isWhiteSpace_def toLowerCase_def lowerChar_def upperUnits_def char_of_def bit_0

lemma step_create:
  "createGame noneClosed (drawRandom 3 10) ''t1'' 11 (request ''Ann'' []) 1 initialServer
     = Some (soloStore,
             wsSend noneClosed 11
               (GameCreated ''KKKK'' [PlayerInfo 1 ''Ann'' True True True] True ''t1''))"
  by (simp add: createGame_def request_def string_eval initialServer_def generate_K Let_def
      soloStore_def soloRoom_def roomOf_def member_def getPlayerList_def)

lemma step_join_bob:
  "fst (joinGame noneClosed ''t2'' 12 (request ''Bob'' ''KKKK'') 2 soloStore) = duoStore"
  by (simp add: joinGame_def request_def string_eval soloStore_def soloRoom_def duoStore_def
      duoRoom_def roomOf_def member_def Let_def)

lemma step_join_cid:
  "fst (joinGame noneClosed ''t3'' 13 (request ''Cid'' '' kkkk '') 3 duoStore) = trioStore"
  by (simp add: joinGame_def request_def string_eval trioStore_def trioRoom_def duoStore_def
      duoRoom_def roomOf_def member_def Let_def)

lemma step_ann_second:
  "map_option fst (createGame noneClosed (drawRandom 0 2) ''t4'' 11 (request ''Ann'' []) 1 duoStore)
     = Some annSecondStore"
  by (simp add: createGame_def request_def string_eval generate_A Let_def duoStore_def
      annSecondStore_def secondRoom_def roomOf_def member_def)

lemma step_bob_second:
  "map_option fst (createGame noneClosed (drawRandom 0 2) ''t4'' 12 (request ''Bob'' []) 2 duoStore)
     = Some bobSecondStore"
  by (simp add: createGame_def request_def string_eval generate_A Let_def duoStore_def
      bobSecondStore_def secondRoom_def roomOf_def member_def)

lemma step_close_cid: "fst (onPlayerDisconnect noneClosed 3 trioStore) = awayStore"
  by (simp add: onPlayerDisconnect_def trioStore_def trioRoom_def awayStore_def awayRoom_def
      roomOf_def member_def Let_def)

lemma step_remove_self:
  "fst (removePlayer noneClosed 11 (targetRequest 1) 1 soloStore) = hostlessStore"
  by (simp add: removePlayer_def targetRequest_def soloStore_def soloRoom_def hostlessStore_def
      roomOf_def member_def Let_def)

lemma reachable_soloStore: "reachable soloStore"
proof -
  have "handleMessage noneClosed (drawRandom 3 10) ''t1'' 11
          (Some (''createGame'', request ''Ann'' [])) 1 initialServer
          = Some (soloStore, wsSend noneClosed 11
               (GameCreated ''KKKK'' [PlayerInfo 1 ''Ann'' True True True] True ''t1''))"
    using step_create by (simp add: handleMessage_def)
  with reachable.start show ?thesis by (rule reachable.message)
qed

lemma reachable_join:
  assumes "reachable s" and "fst (joinGame throws newToken ws dat connectionId s) = s'"
  shows "reachable s'"
proof -
  have "handleMessage throws (drawRandom 0 2) newToken ws (Some (''joinGame'', dat)) connectionId s
          = Some (s', snd (joinGame throws newToken ws dat connectionId s))"
    using assms(2) by (simp add: handleMessage_def prod_eq_iff)
  with assms(1) show ?thesis by (rule reachable.message)
qed

lemma reachable_create:
  assumes "reachable s"
    and "map_option fst (createGame throws rnd newToken ws dat connectionId s) = Some s'"
  shows "reachable s'"
proof -
  from assms(2) obtain es where "createGame throws rnd newToken ws dat connectionId s = Some (s', es)"
    by (cases "createGame throws rnd newToken ws dat connectionId s") auto
  then have "handleMessage throws rnd newToken ws (Some (''createGame'', dat)) connectionId s
               = Some (s', es)"
    by (simp add: handleMessage_def)
  with assms(1) show ?thesis by (rule reachable.message)
qed

lemma reachable_duoStore: "reachable duoStore"
  using reachable_soloStore step_join_bob by (rule reachable_join)

lemma reachable_trioStore: "reachable trioStore"
  using reachable_duoStore step_join_cid by (rule reachable_join)

lemma reachable_annSecondStore: "reachable annSecondStore"
  using reachable_duoStore step_ann_second by (rule reachable_create)

lemma reachable_bobSecondStore: "reachable bobSecondStore"
  using reachable_duoStore step_bob_second by (rule reachable_create)

lemma reachable_awayStore: "reachable awayStore"
proof -
  have "onPlayerDisconnect noneClosed 3 trioStore
          = (awayStore, snd (onPlayerDisconnect noneClosed 3 trioStore))"
    using step_close_cid by (simp add: prod_eq_iff)
  with reachable_trioStore show ?thesis by (rule reachable.close)
qed

lemma reachable_hostlessStore: "reachable hostlessStore"
proof -
  have "handleMessage noneClosed (drawRandom 0 2) [] 11 (Some (''removePlayer'', targetRequest 1)) 1 soloStore
          = Some (hostlessStore, snd (removePlayer noneClosed 11 (targetRequest 1) 1 soloStore))"
    using step_remove_self by (simp add: handleMessage_def prod_eq_iff)
  with reachable_soloStore show ?thesis by (rule reachable.message)
qed

lemma trioStore_facts:
  "playerConnections trioStore 1 = Some ''KKKK''"
  "playerConnections trioStore 2 = Some ''KKKK''"
  "playerConnections trioStore 3 = Some ''KKKK''"
  "games trioStore ''KKKK'' = Some trioRoom"
  by (simp_all add: trioStore_def)

lemma trioRoom_facts:
  "host trioRoom = 1" "status trioRoom = Lobby" "length (players trioRoom) = 3"
  "readyStates trioRoom = None"
  "map_of (players trioRoom) 1 = Some (member ''Ann'' True 11 ''t1'')"
  "map_of (players trioRoom) 2 = Some (member ''Bob'' False 12 ''t2'')"
  "map_of (players trioRoom) 3 = Some (member ''Cid'' False 13 ''t3'')"
  "recipients (players trioRoom) = [11, 12, 13]"
  by (simp_all add: trioRoom_def roomOf_def recipients_def member_def)

section \<open>Joining\<close>

text \<open>
  Claim C3. \<open>joinGame\<close> validates in this order: the player name, blank after trimming;
  then the existence of the room, looked up under the normalised code; then the room being in the lobby; then a collision,
  ignoring case, of the trimmed name with the name of a member. The first check that fails
  decides the outcome whatever the later ones would say: the store is returned unchanged and
  the only effect is the corresponding error, serialised and sent to the caller's socket.
\<close>

theorem joinGame_validation_order:
  fixes dat :: data and s :: server
  defines "playerName \<equiv> trim (case data_playerName dat of None \<Rightarrow> [] | Some n \<Rightarrow> n)"
  defines "room \<equiv>
    (case map_option trim (toUpperCase (case data_gameCode dat of None \<Rightarrow> [] | Some c \<Rightarrow> c)) of
       None \<Rightarrow> None
     | Some gameCode \<Rightarrow> games s gameCode)"
  shows "(playerName = [] \<longrightarrow>
            joinGame throws newToken ws dat connectionId s
              = (s, wsSend throws ws (ErrorMsg ''Player name is required'')))
       \<and> (playerName \<noteq> [] \<and> room = None \<longrightarrow>
            joinGame throws newToken ws dat connectionId s
              = (s, wsSend throws ws (ErrorMsg ''Game not found'')))
       \<and> (playerName \<noteq> [] \<and> room = Some game \<and> status game \<noteq> Lobby \<longrightarrow>
            joinGame throws newToken ws dat connectionId s
              = (s, wsSend throws ws (ErrorMsg ''Game has already started'')))
       \<and> (playerName \<noteq> [] \<and> room = Some game \<and> status game = Lobby
            \<and> (\<exists>p\<in>set (players game). toLowerCase (name (snd p)) = toLowerCase playerName) \<longrightarrow>
            joinGame throws newToken ws dat connectionId s
              = (s, wsSend throws ws (ErrorMsg ''That name is already taken'')))
       \<and> stringified (wsSend throws ws (ErrorMsg text)) = [ErrorMsg text]
       \<and> attempts (wsSend throws ws (ErrorMsg text)) = [(ws, ErrorMsg text)]"
  unfolding playerName_def room_def
  by (auto simp add: joinGame_def Let_def nameTaken_iff wsSend_def simp del: toUpperCase.simps
      split: option.splits)

text \<open>
  A blank name with an unknown code is a name error; a good name with an unknown code is
  not found; a taken name in a started room is a started error; a taken name in a lobby is
  a name collision.
\<close>

theorem joinGame_validation_order_witness:
  "joinGame noneClosed ''t4'' 14 (request ''  '' ''zzzz'') 4 trioStore
     = (trioStore, wsSend noneClosed 14 (ErrorMsg ''Player name is required''))
   \<and> joinGame noneClosed ''t4'' 14 (request ''Zed'' ''zzzz'') 4 trioStore
     = (trioStore, wsSend noneClosed 14 (ErrorMsg ''Game not found''))
   \<and> joinGame noneClosed ''t4'' 14 (request ''ann'' ''KKKK'') 4 startedStore
     = (startedStore, wsSend noneClosed 14 (ErrorMsg ''Game has already started''))
   \<and> joinGame noneClosed ''t4'' 14 (request ''ann'' ''KKKK'') 4 trioStore
     = (trioStore, wsSend noneClosed 14 (ErrorMsg ''That name is already taken''))"
proof -
  have n: "games trioStore ''ZZZZ'' = None" by (simp add: trioStore_def)
  have p: "games startedStore ''KKKK'' = Some (trioRoom \<lparr> status := Playing \<rparr>)"
    by (simp add: startedStore_def)
  have t: "\<exists>p\<in>set (players trioRoom). toLowerCase (name (snd p)) = toLowerCase ''ann''"
    by (simp add: trioRoom_def roomOf_def member_def string_eval)
  from joinGame_validation_order[where dat = "request ''  '' ''zzzz''" and s = trioStore and throws = noneClosed
      and newToken = "''t4''" and ws = 14 and connectionId = 4 and game = trioRoom]
  have 1: "joinGame noneClosed ''t4'' 14 (request ''  '' ''zzzz'') 4 trioStore
     = (trioStore, wsSend noneClosed 14 (ErrorMsg ''Player name is required''))"
    by (simp add: request_def string_eval)
  from joinGame_validation_order[where dat = "request ''Zed'' ''zzzz''" and s = trioStore and throws = noneClosed
      and newToken = "''t4''" and ws = 14 and connectionId = 4 and game = trioRoom]
  have 2: "joinGame noneClosed ''t4'' 14 (request ''Zed'' ''zzzz'') 4 trioStore
     = (trioStore, wsSend noneClosed 14 (ErrorMsg ''Game not found''))"
    using n by (simp add: request_def string_eval)
  from joinGame_validation_order[where dat = "request ''ann'' ''KKKK''" and s = startedStore and throws = noneClosed
      and newToken = "''t4''" and ws = 14 and connectionId = 4 and game = "trioRoom \<lparr> status := Playing \<rparr>"]
  have 3: "joinGame noneClosed ''t4'' 14 (request ''ann'' ''KKKK'') 4 startedStore
     = (startedStore, wsSend noneClosed 14 (ErrorMsg ''Game has already started''))"
    using p by (simp add: request_def string_eval)
  from joinGame_validation_order[where dat = "request ''ann'' ''KKKK''" and s = trioStore and throws = noneClosed
      and newToken = "''t4''" and ws = 14 and connectionId = 4 and game = trioRoom]
  have 4: "joinGame noneClosed ''t4'' 14 (request ''ann'' ''KKKK'') 4 trioStore
     = (trioStore, wsSend noneClosed 14 (ErrorMsg ''That name is already taken''))"
    using t by (simp add: request_def string_eval trioStore_facts trioRoom_facts)
  from 1 2 3 4 show ?thesis by blast
qed

text \<open>
  Claim C9. \<open>joinGame\<close> looks the room up under the supplied code in upper case and
  trimmed. So for an existing room whose code \<open>c\<close> is made of alphabet characters, a request
  whose code is \<open>c\<close> with any of its letters in the other case, between any white-space
  characters, has the same outcome, store and effects, as the request with \<open>c\<close> itself;
  when the other checks pass, the caller becomes a member of that very room. The request is
  described by \<open>sameLetter\<close> and \<open>whiteSpaceCharacters\<close>, not by the string functions that
  \<open>joinGame\<close> calls.
\<close>

theorem joinGame_code_normalised:
  assumes "games s c = Some game" and "set c \<subseteq> set characters"
    and "set pre \<subseteq> set whiteSpaceCharacters" and "set post \<subseteq> set whiteSpaceCharacters"
    and "list_all2 sameLetter body c"
  shows "joinGame throws newToken ws (dat \<lparr> data_gameCode := Some (pre @ body @ post) \<rparr>) connectionId s
           = joinGame throws newToken ws (dat \<lparr> data_gameCode := Some c \<rparr>) connectionId s
         \<and> (let playerName = trim (case data_playerName dat of None \<Rightarrow> [] | Some n \<Rightarrow> n);
                 s' = fst (joinGame throws newToken ws
                             (dat \<lparr> data_gameCode := Some (pre @ body @ post) \<rparr>) connectionId s)
             in playerName \<noteq> [] \<and> status game = Lobby \<and> \<not> nameTaken (players game) playerName
                \<longrightarrow> playerConnections s' connectionId = Some c
                    \<and> (\<exists>game'. games s' c = Some game'
                          \<and> map_of (players game') connectionId
                              = Some \<lparr> name = playerName, isHost = False, connection = ws,
                                       token = newToken, connected_flag = True \<rparr>))"
proof -
  have raw: "map_option trim (toUpperCase (pre @ body @ post)) = Some c"
    using assms(2-5) by (rule normalise_code)
  have canon: "map_option trim (toUpperCase c) = Some c"
    using assms(2) by (rule canonical_code_fixed)
  show ?thesis
    using assms(1) by (simp add: joinGame_def Let_def raw canon update_conv')
qed

text \<open>
  Dee joins room \<open>KKKK\<close> by typing \<open>kKkk\<close> after a blank and a no-break space and before
  a tab and a blank.
\<close>

theorem joinGame_code_normalised_witness:
  "games trioStore ''KKKK'' = Some trioRoom \<and> set ''KKKK'' \<subseteq> set characters
   \<and> set [CHR 0x20, CHR 0xA0] \<subseteq> set whiteSpaceCharacters
   \<and> set [CHR 0x09, CHR 0x20] \<subseteq> set whiteSpaceCharacters
   \<and> list_all2 sameLetter ''kKkk'' ''KKKK''
   \<and> joinGame noneClosed ''t4'' 14
        (request ''Dee'' ([CHR 0x20, CHR 0xA0] @ ''kKkk'' @ [CHR 0x09, CHR 0x20])) 4 trioStore
       = joinGame noneClosed ''t4'' 14 (request ''Dee'' ''KKKK'') 4 trioStore
   \<and> playerConnections
        (fst (joinGame noneClosed ''t4'' 14
                (request ''Dee'' ([CHR 0x20, CHR 0xA0] @ ''kKkk'' @ [CHR 0x09, CHR 0x20])) 4 trioStore)) 4
       = Some ''KKKK''"
proof -
  have c: "set ''KKKK'' \<subseteq> set characters" by (simp add: characters_def)
  have w1: "set [CHR 0x20, CHR 0xA0] \<subseteq> set whiteSpaceCharacters"
    and w2: "set [CHR 0x09, CHR 0x20] \<subseteq> set whiteSpaceCharacters"
    by (simp_all add: whiteSpaceCharacters_def)
  have u: "list_all2 sameLetter ''kKkk'' ''KKKK''" by (simp add: sameLetter_def)
  have d: "trim ''Dee'' = ''Dee''" by (simp add: string_eval)
  have nt: "\<not> nameTaken (players trioRoom) ''Dee''"
    by (simp add: trioRoom_def roomOf_def member_def string_eval)
  note T = joinGame_code_normalised[OF trioStore_facts(4) c w1 w2 u,
      of noneClosed "''t4''" 14 "request ''Dee'' []" 4, unfolded Let_def]
  have eq: "joinGame noneClosed ''t4'' 14
        (request ''Dee'' ([CHR 0x20, CHR 0xA0] @ ''kKkk'' @ [CHR 0x09, CHR 0x20])) 4 trioStore
       = joinGame noneClosed ''t4'' 14 (request ''Dee'' ''KKKK'') 4 trioStore"
    using T[THEN conjunct1] by (simp add: request_def)
  have pc: "playerConnections
        (fst (joinGame noneClosed ''t4'' 14
                (request ''Dee'' ([CHR 0x20, CHR 0xA0] @ ''kKkk'' @ [CHR 0x09, CHR 0x20])) 4 trioStore)) 4
       = Some ''KKKK''"
    using T[THEN conjunct2] nt d trioRoom_facts(2) by (simp add: request_def)
  from eq pc c w1 w2 u trioStore_facts(4) show ?thesis by blast
qed

section \<open>Starting\<close>

text \<open>
  Claim C2. When the caller of \<open>startGame\<close> is not the host of its room, or the room is not
  in the lobby, or the room has fewer than five players, the store is returned unchanged (so
  the room keeps its status, roles, round, ready states and players) and nothing is
  broadcast: the effects are empty or one error sent to the caller's socket.
\<close>

theorem startGame_rejected:
  assumes "playerConnections s connectionId = Some gameCode"
    and "games s gameCode = Some game"
    and "host game \<noteq> connectionId \<or> status game \<noteq> Lobby \<or> length (players game) < 5"
  shows "fst (startGame throws rnd ws dat connectionId s) = s
         \<and> games (fst (startGame throws rnd ws dat connectionId s)) gameCode = Some game
         \<and> (snd (startGame throws rnd ws dat connectionId s) = []
              \<or> (\<exists>text. snd (startGame throws rnd ws dat connectionId s)
                            = wsSend throws ws (ErrorMsg text)
                          \<and> attempts (snd (startGame throws rnd ws dat connectionId s))
                            = [(ws, ErrorMsg text)]))"
  using assms by (auto simp add: startGame_def wsSend_def Let_def)

text \<open>Bob is not the host; Ann is, but her room has three players.\<close>

theorem startGame_rejected_witness:
  "playerConnections trioStore 2 = Some ''KKKK'' \<and> games trioStore ''KKKK'' = Some trioRoom
   \<and> host trioRoom \<noteq> 2 \<and> length (players trioRoom) < 5
   \<and> startGame noneClosed (drawRandom 0 2) 12 (targetRequest 0) 2 trioStore
       = (trioStore, wsSend noneClosed 12 (ErrorMsg ''Only the host can start the game''))
   \<and> fst (startGame noneClosed (drawRandom 0 2) 11 (targetRequest 0) 1 trioStore) = trioStore"
proof -
  have h: "host trioRoom \<noteq> 2 \<or> status trioRoom \<noteq> Lobby \<or> length (players trioRoom) < 5"
    and h': "host trioRoom \<noteq> 1 \<or> status trioRoom \<noteq> Lobby \<or> length (players trioRoom) < 5"
    by (simp_all add: trioRoom_facts)
  have e: "startGame noneClosed (drawRandom 0 2) 12 (targetRequest 0) 2 trioStore
       = (trioStore, wsSend noneClosed 12 (ErrorMsg ''Only the host can start the game''))"
    by (simp add: startGame_def trioStore_facts trioRoom_facts)
  from startGame_rejected[OF trioStore_facts(2) trioStore_facts(4) h,
      of noneClosed "drawRandom 0 2" 12 "targetRequest 0"]
    startGame_rejected[OF trioStore_facts(1) trioStore_facts(4) h',
      of noneClosed "drawRandom 0 2" 11 "targetRequest 0"]
  show ?thesis using e by (simp add: trioStore_facts trioRoom_facts)
qed

section \<open>Ready marks\<close>

text \<open>
  Claim C10. When \<open>playerReady\<close> is called for a connection whose room exists and has no
  ready map yet, a \<open>readyUpdate\<close> with \<open>readyCount = 1\<close> is broadcast to the room and the
  store is returned unchanged: the mark went into a map that no room refers to. The same
  call made again therefore has the same outcome.
\<close>

theorem playerReady_uninitialised:
  assumes "playerConnections s connectionId = Some gameCode" and "gameCode \<noteq> []"
    and "games s gameCode = Some game" and "readyStates game = None"
  shows "playerReady throws ws dat connectionId s
           = (s, broadcastToGame throws (games s) gameCode
                   (ReadyUpdate 1 (length (players game))))
         \<and> playerReady throws ws dat connectionId (fst (playerReady throws ws dat connectionId s))
           = playerReady throws ws dat connectionId s"
proof -
  have "playerReady throws ws dat connectionId s
           = (s, broadcastToGame throws (games s) gameCode
                   (ReadyUpdate 1 (length (players game))))"
    using assms by (simp add: playerReady_def Let_def)
  then show ?thesis by simp
qed

theorem playerReady_uninitialised_witness:
  "playerConnections trioStore 2 = Some ''KKKK'' \<and> games trioStore ''KKKK'' = Some trioRoom
   \<and> readyStates trioRoom = None
   \<and> fst (playerReady noneClosed 12 (targetRequest 0) 2 trioStore) = trioStore
   \<and> attempts (snd (playerReady noneClosed 12 (targetRequest 0) 2 trioStore))
       = [(11, ReadyUpdate 1 3), (12, ReadyUpdate 1 3), (13, ReadyUpdate 1 3)]"
proof -
  have ne: "''KKKK'' \<noteq> []" by simp
  from playerReady_uninitialised[OF trioStore_facts(2) ne trioStore_facts(4) trioRoom_facts(4),
      of noneClosed 12 "targetRequest 0"]
  show ?thesis
    by (simp add: trioStore_facts trioRoom_facts broadcastToGame_def attempts_deliver)
qed

section \<open>Leaving\<close>

text \<open>
  Claim C5, as amended. Let the registry map the caller to an existing room that holds a
  record for it. If the caller is the host of that room, \<open>leaveGame\<close> deletes that room
  from the store, so a lookup by its code fails, all other rooms staying as they are, and a
  delivery of the terminal error is attempted to each player of the room whose
  \<open>connected\<close> flag is set, and to no other. Otherwise exactly the caller's record is
  removed from that room, the other records staying as they are and in order, and a
  delivery of the new roster, which does not list the caller, is attempted to each
  remaining player whose \<open>connected\<close> flag is set, and to no other.
\<close>

theorem leaveGame_effect:
  assumes "playerConnections s connectionId = Some gameCode" and "gameCode \<noteq> []"
    and "games s gameCode = Some game"
    and "map_of (players game) connectionId = Some player"
  shows "(host game = connectionId \<longrightarrow>
            games (fst (leaveGame throws ws dat connectionId s)) = (games s)(gameCode := None)
            \<and> attempts (snd (leaveGame throws ws dat connectionId s))
                = map (\<lambda>w. (w, ErrorMsg ''Host left the game. Game ended.''))
                      (recipients (players game)))
       \<and> (host game \<noteq> connectionId \<longrightarrow>
            (let ps' = filter (\<lambda>p. fst p \<noteq> connectionId) (players game);
                 gs' = games (fst (leaveGame throws ws dat connectionId s))
             in gs' = (games s)(gameCode \<mapsto> game \<lparr> players := ps' \<rparr>)
                \<and> attempts (snd (leaveGame throws ws dat connectionId s))
                    = map (\<lambda>w. (w, PlayerListUpdate (getPlayerList gs' gameCode))) (recipients ps')
                \<and> map info_id (getPlayerList gs' gameCode) = map fst ps'
                \<and> connectionId \<notin> set (map fst ps')))"
proof (intro conjI impI)
  assume h: "host game = connectionId"
  have run: "leaveGame throws ws dat connectionId s
        = (s \<lparr> games := (games s)(gameCode := None),
               playerConnections := (playerConnections s)(connectionId := None) \<rparr>,
           broadcastToGame throws (games s) gameCode (ErrorMsg ''Host left the game. Game ended.''))"
    using assms h by (simp add: leaveGame_def)
  show "games (fst (leaveGame throws ws dat connectionId s)) = (games s)(gameCode := None)"
    by (simp add: run)
  show "attempts (snd (leaveGame throws ws dat connectionId s))
                = map (\<lambda>w. (w, ErrorMsg ''Host left the game. Game ended.''))
                      (recipients (players game))"
    using assms(3) by (simp add: run broadcastToGame_def attempts_deliver)
next
  assume h: "host game \<noteq> connectionId"
  define ps' where "ps' = filter (\<lambda>p. fst p \<noteq> connectionId) (players game)"
  define gs' where "gs' = (games s)(gameCode \<mapsto> game \<lparr> players := ps' \<rparr>)"
  have run: "leaveGame throws ws dat connectionId s
        = (s \<lparr> games := gs',
               playerConnections := (playerConnections s)(connectionId := None) \<rparr>,
           broadcastToGame throws gs' gameCode (PlayerListUpdate (getPlayerList gs' gameCode)))"
    using assms h by (simp add: leaveGame_def Let_def gs'_def ps'_def delete_filter)
  have g: "gs' gameCode = Some (game \<lparr> players := ps' \<rparr>)" by (simp add: gs'_def)
  have a: "attempts (snd (leaveGame throws ws dat connectionId s))
             = map (\<lambda>w. (w, PlayerListUpdate (getPlayerList gs' gameCode))) (recipients ps')"
    using g by (simp add: run broadcastToGame_def attempts_deliver)
  have i: "map info_id (getPlayerList gs' gameCode) = map fst ps'"
    using g by (simp add: getPlayerList_ids[where game = "game \<lparr> players := ps' \<rparr>"])
  have n: "connectionId \<notin> set (map fst ps')" by (auto simp: ps'_def)
  show "let ps' = filter (\<lambda>p. fst p \<noteq> connectionId) (players game);
            gs' = games (fst (leaveGame throws ws dat connectionId s))
        in gs' = (games s)(gameCode \<mapsto> game \<lparr> players := ps' \<rparr>)
           \<and> attempts (snd (leaveGame throws ws dat connectionId s))
               = map (\<lambda>w. (w, PlayerListUpdate (getPlayerList gs' gameCode))) (recipients ps')
           \<and> map info_id (getPlayerList gs' gameCode) = map fst ps'
           \<and> connectionId \<notin> set (map fst ps')"
    unfolding Let_def ps'_def[symmetric]
    using a i n by (simp add: run gs'_def)
qed

text \<open>Ann, the host, leaves the room of three; Bob leaves it.\<close>

theorem leaveGame_effect_witness:
  "playerConnections trioStore 1 = Some ''KKKK'' \<and> playerConnections trioStore 2 = Some ''KKKK''
   \<and> games trioStore ''KKKK'' = Some trioRoom \<and> host trioRoom = 1
   \<and> games (fst (leaveGame noneClosed 11 (targetRequest 0) 1 trioStore)) ''KKKK'' = None
   \<and> attempts (snd (leaveGame noneClosed 11 (targetRequest 0) 1 trioStore))
       = [(11, ErrorMsg ''Host left the game. Game ended.''),
          (12, ErrorMsg ''Host left the game. Game ended.''),
          (13, ErrorMsg ''Host left the game. Game ended.'')]
   \<and> map fst (attempts (snd (leaveGame noneClosed 12 (targetRequest 0) 2 trioStore))) = [11, 13]"
proof -
  have ne: "''KKKK'' \<noteq> []" by simp
  have r: "recipients (filter (\<lambda>p. fst p \<noteq> 2) (players trioRoom)) = [11, 13]"
    by (simp add: recipients_def trioRoom_def roomOf_def member_def)
  from leaveGame_effect[where s = trioStore and gameCode = "''KKKK''" and game = trioRoom
        and throws = noneClosed and ws = 11 and dat = "targetRequest 0",
        OF trioStore_facts(1) ne trioStore_facts(4) trioRoom_facts(5)]
    leaveGame_effect[where s = trioStore and gameCode = "''KKKK''" and game = trioRoom
        and throws = noneClosed and ws = 12 and dat = "targetRequest 0",
        OF trioStore_facts(2) ne trioStore_facts(4) trioRoom_facts(6)]
  show ?thesis
    using trioStore_facts trioRoom_facts r by (simp add: Let_def comp_def)
qed

text \<open>
  Claim C5 as stated fails in two reachable stores. In the first, Cid's socket has closed
  and Cid is still a member of Ann's room: when Ann, the host, leaves, the room is deleted
  and nothing is sent to Cid's socket. In the second, Ann, host of \<open>KKKK\<close> with Bob in it,
  has created a second room \<open>AAAA\<close>, which the registry now names for her: when she
  leaves, \<open>AAAA\<close> is deleted, \<open>KKKK\<close> stays with Ann as its host, and nothing is sent
  to Bob.
\<close>

theorem leaveGame_members_and_rooms_counterexample:
  "reachable awayStore
   \<and> playerConnections awayStore 1 = Some ''KKKK''
   \<and> games awayStore ''KKKK'' = Some awayRoom
   \<and> host awayRoom = 1
   \<and> map fst (players awayRoom) = [1, 2, 3]
   \<and> map_option connection (map_of (players awayRoom) 3) = Some 13
   \<and> games (fst (leaveGame noneClosed 11 (targetRequest 0) 1 awayStore)) ''KKKK'' = None
   \<and> attempts (snd (leaveGame noneClosed 11 (targetRequest 0) 1 awayStore))
       = [(11, ErrorMsg ''Host left the game. Game ended.''),
          (12, ErrorMsg ''Host left the game. Game ended.'')]
   \<and> reachable annSecondStore
   \<and> games annSecondStore ''KKKK'' = Some duoRoom
   \<and> host duoRoom = 1
   \<and> map fst (players duoRoom) = [1, 2]
   \<and> map (\<lambda>p. connected_flag (snd p)) (players duoRoom) = [True, True]
   \<and> games (fst (leaveGame noneClosed 11 (targetRequest 0) 1 annSecondStore)) ''KKKK''
       = Some duoRoom
   \<and> games (fst (leaveGame noneClosed 11 (targetRequest 0) 1 annSecondStore)) ''AAAA'' = None
   \<and> attempts (snd (leaveGame noneClosed 11 (targetRequest 0) 1 annSecondStore))
       = [(11, ErrorMsg ''Host left the game. Game ended.'')]"
proof -
  have first: "playerConnections awayStore 1 = Some ''KKKK''
     \<and> games awayStore ''KKKK'' = Some awayRoom
     \<and> host awayRoom = 1
     \<and> map fst (players awayRoom) = [1, 2, 3]
     \<and> map_option connection (map_of (players awayRoom) 3) = Some 13
     \<and> games (fst (leaveGame noneClosed 11 (targetRequest 0) 1 awayStore)) ''KKKK'' = None
     \<and> attempts (snd (leaveGame noneClosed 11 (targetRequest 0) 1 awayStore))
         = [(11, ErrorMsg ''Host left the game. Game ended.''),
            (12, ErrorMsg ''Host left the game. Game ended.'')]"
    by (simp add: awayStore_def awayRoom_def trioStore_def roomOf_def member_def leaveGame_def
        broadcastToGame_def)
  have second: "games annSecondStore ''KKKK'' = Some duoRoom
     \<and> host duoRoom = 1
     \<and> map fst (players duoRoom) = [1, 2]
     \<and> map (\<lambda>p. connected_flag (snd p)) (players duoRoom) = [True, True]
     \<and> games (fst (leaveGame noneClosed 11 (targetRequest 0) 1 annSecondStore)) ''KKKK''
         = Some duoRoom
     \<and> games (fst (leaveGame noneClosed 11 (targetRequest 0) 1 annSecondStore)) ''AAAA'' = None
     \<and> attempts (snd (leaveGame noneClosed 11 (targetRequest 0) 1 annSecondStore))
         = [(11, ErrorMsg ''Host left the game. Game ended.'')]"
    by (simp add: annSecondStore_def secondRoom_def duoRoom_def roomOf_def member_def leaveGame_def
        broadcastToGame_def)
  from reachable_awayStore first reachable_annSecondStore second show ?thesis by blast
qed

section \<open>Disconnecting\<close>

text \<open>
  What the handler does when the registry maps the connection to an existing room that
  holds a record for it: the store changes only in that record, which stays in place with
  its \<open>connected\<close> flag cleared and every other field as before; the identifiers of the
  room, hence the player count, the \<open>host\<close> field and the \<open>isHost\<close> flags are the
  same, also when the host disconnects. One \<open>playerDisconnected\<close> notice carrying the
  identifier and name of the player is serialised and broadcast to the players still marked
  connected.
\<close>

lemma onPlayerDisconnect_registry_room:
  assumes "playerConnections s connectionId = Some gameCode" and "gameCode \<noteq> []"
    and "games s gameCode = Some game"
    and "map_of (players game) connectionId = Some player"
  shows "let ps' = AList.update connectionId (player \<lparr> connected_flag := False \<rparr>) (players game)
         in fst (onPlayerDisconnect throws connectionId s)
              = s \<lparr> games := (games s)(gameCode \<mapsto> game \<lparr> players := ps' \<rparr>) \<rparr>
            \<and> map fst ps' = map fst (players game)
            \<and> map_of ps' = (map_of (players game))
                              (connectionId \<mapsto> player \<lparr> connected_flag := False \<rparr>)
            \<and> map (\<lambda>p. isHost (snd p)) ps' = map (\<lambda>p. isHost (snd p)) (players game)
            \<and> stringified (snd (onPlayerDisconnect throws connectionId s))
                = [PlayerDisconnected connectionId (name player)]
            \<and> attempts (snd (onPlayerDisconnect throws connectionId s))
                = map (\<lambda>w. (w, PlayerDisconnected connectionId (name player))) (recipients ps')"
proof -
  define ps' where "ps' = AList.update connectionId (player \<lparr> connected_flag := False \<rparr>) (players game)"
  have mem: "connectionId \<in> fst ` set (players game)"
    using assms(4) by (metis map_of_eq_None_iff option.distinct(1))
  have keys: "map fst ps' = map fst (players game)"
    using mem by (simp add: ps'_def update_keys)
  have hosts: "map (\<lambda>p. isHost (snd p)) ps' = map (\<lambda>p. isHost (snd p)) (players game)"
    unfolding ps'_def using assms(4) by (rule update_same_hosts)
  have look: "map_of ps' = (map_of (players game))
                              (connectionId \<mapsto> player \<lparr> connected_flag := False \<rparr>)"
    by (simp add: ps'_def update_conv')
  have run: "onPlayerDisconnect throws connectionId s
                 = (s \<lparr> games := (games s)(gameCode \<mapsto> game \<lparr> players := ps' \<rparr>) \<rparr>,
                    Stringify (PlayerDisconnected connectionId (name player))
                      # deliver throws (PlayerDisconnected connectionId (name player)) ps')"
    using assms by (simp add: onPlayerDisconnect_def Let_def broadcastToGame_def ps'_def)
  show ?thesis
    unfolding Let_def ps'_def[symmetric]
    using keys hosts look by (simp add: run stringified_deliver attempts_deliver)
qed

text \<open>Cid's socket closes: the store becomes \<open>awayStore\<close> and Ann and Bob are told.\<close>

lemma onPlayerDisconnect_registry_room_example:
  "playerConnections trioStore 3 = Some ''KKKK'' \<and> games trioStore ''KKKK'' = Some trioRoom
   \<and> map_of (players trioRoom) 3 = Some (member ''Cid'' False 13 ''t3'')
   \<and> fst (onPlayerDisconnect (closedSocket 13) 3 trioStore) = awayStore
   \<and> attempts (snd (onPlayerDisconnect (closedSocket 13) 3 trioStore))
       = [(11, PlayerDisconnected 3 ''Cid''), (12, PlayerDisconnected 3 ''Cid'')]"
proof -
  have ne: "''KKKK'' \<noteq> []" by simp
  have u: "AList.update 3 ((member ''Cid'' False 13 ''t3'') \<lparr> connected_flag := False \<rparr>)
             (players trioRoom)
           = players awayRoom"
    by (simp add: trioRoom_def awayRoom_def roomOf_def)
  have a: "trioStore \<lparr> games := (games trioStore)
              (''KKKK'' \<mapsto> trioRoom \<lparr> players := players awayRoom \<rparr>) \<rparr> = awayStore"
    by (simp add: awayStore_def trioStore_def trioRoom_def awayRoom_def roomOf_def)
  have r: "recipients (players awayRoom) = [11, 12]"
    by (simp add: recipients_def awayRoom_def roomOf_def member_def)
  have n: "name (member ''Cid'' False 13 ''t3'') = ''Cid''" by (simp add: member_def)
  from onPlayerDisconnect_registry_room[OF trioStore_facts(3) ne trioStore_facts(4) trioRoom_facts(7),
      of "closedSocket 13", unfolded Let_def u a r n]
  show ?thesis
    using trioStore_facts(3,4) trioRoom_facts(7) by simp
qed

text \<open>
  Claim C7 does not hold of the code. Bob is a member of room \<open>KKKK\<close> and marked
  connected there; he sends \<open>createGame\<close>, which registers him in the new room
  \<open>AAAA\<close> and leaves his record in \<open>KKKK\<close>. When his socket closes, the handler
  follows the registry to \<open>AAAA\<close>: room \<open>KKKK\<close> is exactly as before, Bob's record in
  it still marked connected, and no notice is sent to anyone.
\<close>

theorem onPlayerDisconnect_misses_earlier_room:
  "reachable bobSecondStore
   \<and> games bobSecondStore ''KKKK'' = Some duoRoom
   \<and> map_of (players duoRoom) 2 = Some (member ''Bob'' False 12 ''t2'')
   \<and> connected_flag (member ''Bob'' False 12 ''t2'')
   \<and> playerConnections bobSecondStore 2 = Some ''AAAA''
   \<and> games (fst (onPlayerDisconnect noneClosed 2 bobSecondStore)) ''KKKK'' = Some duoRoom
   \<and> attempts (snd (onPlayerDisconnect noneClosed 2 bobSecondStore)) = []"
proof -
  have "games bobSecondStore ''KKKK'' = Some duoRoom
     \<and> map_of (players duoRoom) 2 = Some (member ''Bob'' False 12 ''t2'')
     \<and> connected_flag (member ''Bob'' False 12 ''t2'')
     \<and> playerConnections bobSecondStore 2 = Some ''AAAA''
     \<and> games (fst (onPlayerDisconnect noneClosed 2 bobSecondStore)) ''KKKK'' = Some duoRoom
     \<and> attempts (snd (onPlayerDisconnect noneClosed 2 bobSecondStore)) = []"
    by (simp add: bobSecondStore_def secondRoom_def duoRoom_def roomOf_def member_def
        onPlayerDisconnect_def broadcastToGame_def Let_def)
  with reachable_bobSecondStore show ?thesis by blast
qed

section \<open>The host invariant\<close>

text \<open>
  A room created by \<open>createGame\<close> satisfies the invariant, and the handlers keep it in every
  room of the store, except for two calls: \<open>joinGame\<close> by the host of the target room,
  and \<open>removePlayer\<close> by a host who targets itself.
\<close>

lemma hosts_update_nonhost:
  "k \<notin> set (map fst (filter (\<lambda>q. isHost (snd q)) ps)) \<Longrightarrow> \<not> isHost p \<Longrightarrow>
     map fst (filter (\<lambda>q. isHost (snd q)) (AList.update k p ps))
       = map fst (filter (\<lambda>q. isHost (snd q)) ps)"
  by (induction ps) (auto split: if_splits)

lemma hosts_delete_nonhost:
  "k \<notin> set (map fst (filter (\<lambda>q. isHost (snd q)) ps)) \<Longrightarrow>
     map fst (filter (\<lambda>q. isHost (snd q)) (AList.delete k ps))
       = map fst (filter (\<lambda>q. isHost (snd q)) ps)"
  by (induction ps) (auto split: if_splits)

lemma hosts_update_flag:
  "map_of ps k = Some p \<Longrightarrow>
     map fst (filter (\<lambda>q. isHost (snd q)) (AList.update k (p \<lparr> connected_flag := False \<rparr>) ps))
       = map fst (filter (\<lambda>q. isHost (snd q)) ps)"
  by (induction ps) (auto split: if_splits)

lemma hostInvariant_players:
  "hostInvariant g \<Longrightarrow>
     map fst (filter (\<lambda>q. isHost (snd q)) ps) = map fst (filter (\<lambda>q. isHost (snd q)) (players g))
     \<Longrightarrow> hostInvariant (g \<lparr> players := ps \<rparr>)"
  by (simp add: hostInvariant_def)

lemma createGame_keeps_hosts:
  assumes "storeInvariant s" and "createGame throws rnd newToken ws dat connectionId s = Some (s', es)"
  shows "storeInvariant s'"
  using assms
  by (auto simp add: createGame_def storeInvariant_def hostInvariant_def Let_def
      split: if_splits option.splits)

lemma startGame_keeps_hosts:
  assumes "storeInvariant s"
  shows "storeInvariant (fst (startGame throws rnd ws dat connectionId s))"
  using assms
  by (auto simp add: startGame_def storeInvariant_def hostInvariant_def Let_def
      split: if_splits option.splits)

lemma playerReady_keeps_hosts:
  assumes "storeInvariant s"
  shows "storeInvariant (fst (playerReady throws ws dat connectionId s))"
  using assms
  by (auto simp add: playerReady_def storeInvariant_def hostInvariant_def Let_def
      split: if_splits option.splits)

lemma leaveGame_keeps_hosts:
  assumes "storeInvariant s"
  shows "storeInvariant (fst (leaveGame throws ws dat connectionId s))"
proof -
  have "hostInvariant (g \<lparr> players := AList.delete connectionId (players g) \<rparr>)"
    if "hostInvariant g" and "host g \<noteq> connectionId" for g
    using that by (intro hostInvariant_players hosts_delete_nonhost) (simp_all add: hostInvariant_def)
  then show ?thesis
    using assms
    by (auto simp add: leaveGame_def storeInvariant_def Let_def split: if_splits option.splits)
qed

lemma onPlayerDisconnect_keeps_hosts:
  assumes "storeInvariant s"
  shows "storeInvariant (fst (onPlayerDisconnect throws connectionId s))"
proof -
  have "hostInvariant (g \<lparr> players := AList.update connectionId (p \<lparr> connected_flag := False \<rparr>) (players g) \<rparr>)"
    if "hostInvariant g" and "map_of (players g) connectionId = Some p" for g p
    using that by (intro hostInvariant_players hosts_update_flag) 
  then show ?thesis
    using assms
    by (auto simp add: onPlayerDisconnect_def storeInvariant_def Let_def split: if_splits option.splits)
qed

lemma joinGame_keeps_hosts:
  assumes "storeInvariant s"
    and "\<forall>c g. map_option trim
                   (toUpperCase (case data_gameCode dat of None \<Rightarrow> [] | Some c \<Rightarrow> c)) = Some c
                 \<and> games s c = Some g
            \<longrightarrow> host g \<noteq> connectionId"
  shows "storeInvariant (fst (joinGame throws newToken ws dat connectionId s))"
proof -
  have "hostInvariant (g \<lparr> players := AList.update connectionId p (players g) \<rparr>)"
    if "hostInvariant g" and "host g \<noteq> connectionId" and "\<not> isHost p" for g p
    using that by (intro hostInvariant_players hosts_update_nonhost) (simp_all add: hostInvariant_def)
  then show ?thesis
    using assms
    by (auto simp add: joinGame_def storeInvariant_def Let_def simp del: toUpperCase.simps
        split: if_splits option.splits)
qed

lemma removePlayer_keeps_hosts:
  assumes "storeInvariant s" and "data_targetId dat \<noteq> Some connectionId"
  shows "storeInvariant (fst (removePlayer throws ws dat connectionId s))"
proof -
  have "hostInvariant (g \<lparr> players := AList.delete t (players g) \<rparr>)"
    if "hostInvariant g" and "host g \<noteq> t" for g t
    using that by (intro hostInvariant_players hosts_delete_nonhost) (simp_all add: hostInvariant_def)
  then show ?thesis
    using assms
    by (auto simp add: removePlayer_def storeInvariant_def Let_def split: if_splits option.splits)
qed

text \<open>
  Claim C4 does not hold of the code. Ann creates room \<open>KKKK\<close>, which satisfies the
  invariant, and then sends \<open>removePlayer\<close> with her own identifier as target: the store
  reached keeps the room, with \<open>host = 1\<close> and no player at all, hence no player with
  \<open>isHost\<close> set.
\<close>

theorem removePlayer_self_leaves_hostless_room:
  "reachable soloStore \<and> games soloStore ''KKKK'' = Some soloRoom \<and> hostInvariant soloRoom
   \<and> fst (removePlayer noneClosed 11 (targetRequest 1) 1 soloStore) = hostlessStore
   \<and> reachable hostlessStore
   \<and> games hostlessStore ''KKKK'' = Some (roomOf [])
   \<and> host (roomOf []) = 1 \<and> players (roomOf []) = []
   \<and> \<not> hostInvariant (roomOf [])"
  using reachable_soloStore reachable_hostlessStore step_remove_self
  by (simp add: soloStore_def soloRoom_def hostlessStore_def hostInvariant_def roomOf_def member_def)

text \<open>
  The other call: Ann joins her own room under a second name, which replaces her record by
  one with \<open>isHost\<close> cleared.
\<close>

lemma joinGame_own_room_clears_host_flag:
  "games (fst (joinGame noneClosed ''t9'' 11 (request ''Zed'' ''KKKK'') 1 soloStore)) ''KKKK''
     = Some (roomOf [(1, member ''Zed'' False 11 ''t9'')])
   \<and> \<not> hostInvariant (roomOf [(1, member ''Zed'' False 11 ''t9'')])"
  by (simp add: joinGame_def request_def string_eval soloStore_def soloRoom_def roomOf_def
      member_def Let_def hostInvariant_def)

end
